theory Spec2Isabelle
  imports Complex_Main "HOL-Library.Sublist" "HOL-Library.Product_Lexorder" "HOL-Library.Log_Nat"
begin

text \<open>
  A model of the background script of the full-page screenshot extension: the class
  \<open>ScreenshotCapture\<close> with its single-flight guard, the tile geometry and capture
  loop of \<open>captureFullPage\<close>, the retrying capture \<open>captureScreenshotWithRetry\<close>
  and the compositor of \<open>combineImages\<close>. The repository holds several revisions
  of the script; the one modelled is the latest, with the clamped scroll offsets, the
  validation after the loop and the canvas size limit. Pure computations are HOL
  functions; a function that awaits returns its outcome (pending, thrown error or value)
  together with the list of its effects.
\<close>

section \<open>Numbers of the page geometry\<close>

text \<open>
  The page metrics are the DOM's pixel counts (\<open>scrollWidth\<close>, \<open>scrollHeight\<close>,
  \<open>innerWidth\<close>, \<open>innerHeight\<close>), which are integers; JavaScript holds them in
  doubles, which are exact on integers of this size, so they are modelled as \<open>int\<close>.
  \<open>Math.floor(a / b)\<close> on such integers with \<open>b \<noteq> 0\<close> is \<open>a div b\<close> (HOL's
  \<open>div\<close> on \<open>int\<close> rounds towards minus infinity). The remainder operator \<open>%\<close>
  truncates: its result has the sign of the dividend. Division by zero does not raise in
  JavaScript: it gives \<open>Infinity\<close>, \<open>-Infinity\<close> or \<open>NaN\<close>, which is written out in
  \<open>segments\<close> below.
\<close>

definition js_rem :: "int \<Rightarrow> int \<Rightarrow> int" where
  "js_rem a b = sgn a * (\<bar>a\<bar> mod \<bar>b\<bar>)"

text \<open>The values a segment count can take: a number, \<open>Infinity\<close> or \<open>NaN\<close>.\<close>

datatype count = Finite nat | Infinite | NotANumber

text \<open>\<open>i < n\<close> for a loop counter \<open>i\<close> and a count \<open>n\<close>; every comparison with
  \<open>NaN\<close> is false.\<close>

fun js_less :: "nat \<Rightarrow> count \<Rightarrow> bool" where
  "js_less i (Finite n) = (i < n)"
| "js_less i Infinite = True"
| "js_less i NotANumber = False"

text \<open>The product of two counts (\<open>Infinity * 0\<close> is \<open>NaN\<close>).\<close>

fun js_times :: "count \<Rightarrow> count \<Rightarrow> count" where
  "js_times (Finite a) (Finite b) = Finite (a * b)"
| "js_times NotANumber _ = NotANumber"
| "js_times _ NotANumber = NotANumber"
| "js_times Infinite (Finite b) = (if b = 0 then NotANumber else Infinite)"
| "js_times (Finite a) Infinite = (if a = 0 then NotANumber else Infinite)"
| "js_times Infinite Infinite = Infinite"

subsection \<open>Numbers that are not integers\<close>

text \<open>
  Every JavaScript number is a binary64 floating-point number, and every arithmetic
  operation gives the binary64 number nearest to the exact result, a tie going to the
  neighbour whose last bit is even. A number is modelled by its exact value, a rational,
  and an operation by the exact operation followed by \<open>binary64\<close>.

  \<open>binade x\<close> is the exponent \<open>e\<close> with \<open>2^e \<le> |x| < 2^(e+1)\<close>: with \<open>p / q\<close> the
  reduced fraction of \<open>x\<close> and \<open>d\<close> the difference of the bit lengths of \<open>|p|\<close>
  and \<open>q\<close>, the value \<open>|x|\<close> lies between \<open>2^(d-1)\<close> and \<open>2^(d+1)\<close>. The
  numbers of a binade are the multiples of \<open>2^(e-52)\<close>; below \<open>2^(-1022)\<close> (the
  subnormal numbers) the spacing stays \<open>2^(-1074)\<close>. Overflow to \<open>Infinity\<close>
  (from \<open>2^1024\<close> on) is not modelled: the quantities of this program are pixel counts,
  qualities and scale factors.
\<close>

definition pow2 :: "int \<Rightarrow> rat" where
  "pow2 e = (if 0 \<le> e then 2 ^ nat e else 1 / 2 ^ nat (- e))"

definition binade :: "rat \<Rightarrow> int" where
  "binade x =
     (let d = bitlen \<bar>fst (quotient_of x)\<bar> - bitlen (snd (quotient_of x))
      in if pow2 d \<le> \<bar>x\<bar> then d else d - 1)"

definition round_half_even :: "rat \<Rightarrow> int" where
  "round_half_even r =
     (let k = \<lfloor>r\<rfloor>; f = r - of_int k
      in if f < 1 / 2 then k else if 1 / 2 < f then k + 1
         else if even k then k else k + 1)"

definition binary64 :: "rat \<Rightarrow> rat" where
  "binary64 x =
     (if x = 0 then 0
      else let ulp = pow2 (max (binade x) (- 1022) - 52)
           in of_int (round_half_even (x / ulp)) * ulp)"

section \<open>Tile geometry (the planning part of \<open>captureFullPage\<close>)\<close>

record page_metrics =
  scrollWidth :: int
  scrollHeight :: int
  viewportWidth :: int
  viewportHeight :: int

text \<open>
  \<^verbatim>\<open>Math.max(1, Math.floor(scrollWidth / viewportWidth) + (scrollWidth % viewportWidth > 0 ? 1 : 0))\<close>

  With \<open>viewport = 0\<close>: for a positive extent the quotient is \<open>Infinity\<close>, the remainder
  is \<open>NaN\<close> (so the test adds 0) and the maximum is \<open>Infinity\<close>; for extent 0 the
  quotient is \<open>NaN\<close> and \<open>Math.max(1, NaN)\<close> is \<open>NaN\<close>; for a negative extent the
  quotient is \<open>-Infinity\<close> and the maximum is 1.
\<close>

definition segments :: "int \<Rightarrow> int \<Rightarrow> count" where
  "segments extent viewport =
     (if viewport = 0 then
        (if 0 < extent then Infinite else if extent = 0 then NotANumber else Finite 1)
      else Finite (nat (max 1 (extent div viewport
                                + (if 0 < js_rem extent viewport then 1 else 0)))))"

text \<open>\<^verbatim>\<open>Math.min(x * viewportWidth, Math.max(0, scrollWidth - viewportWidth))\<close>\<close>

definition scroll_pos :: "int \<Rightarrow> int \<Rightarrow> nat \<Rightarrow> int" where
  "scroll_pos extent viewport i = min (int i * viewport) (max 0 (extent - viewport))"

text \<open>\<^verbatim>\<open>Math.min(viewportWidth, scrollWidth - scrollX)\<close>\<close>

definition actual_size :: "int \<Rightarrow> int \<Rightarrow> int \<Rightarrow> int" where
  "actual_size extent viewport offset = min viewport (extent - offset)"

text \<open>What the loop body computes for the grid cell \<open>(x, y)\<close> before it scrolls.\<close>

record cell =
  gridX :: nat
  gridY :: nat
  scrollX :: int
  scrollY :: int
  actualWidth :: int
  actualHeight :: int

definition cell_at :: "page_metrics \<Rightarrow> nat \<Rightarrow> nat \<Rightarrow> cell" where
  "cell_at pm x y =
     (let sx = scroll_pos (scrollWidth pm) (viewportWidth pm) x;
          sy = scroll_pos (scrollHeight pm) (viewportHeight pm) y
      in \<lparr> gridX = x, gridY = y, scrollX = sx, scrollY = sy,
           actualWidth = actual_size (scrollWidth pm) (viewportWidth pm) sx,
           actualHeight = actual_size (scrollHeight pm) (viewportHeight pm) sy \<rparr>)"

text \<open>
  The cells the two nested loops (\<open>y\<close> outer, \<open>x\<close> inner) visit, in order. With a
  count that is \<open>NaN\<close> a loop condition is false at once and no cell is visited; with
  a count that is \<open>Infinity\<close> the loop never reaches its end.
\<close>

datatype plan = Grid "cell list" | NoCells | Endless

definition plan_grid :: "page_metrics \<Rightarrow> plan" where
  "plan_grid pm =
     (case (segments (scrollHeight pm) (viewportHeight pm),
            segments (scrollWidth pm) (viewportWidth pm)) of
        (Finite rows, Finite cols) \<Rightarrow>
          Grid (concat (map (\<lambda>y. map (\<lambda>x. cell_at pm x y) [0..<cols]) [0..<rows]))
      | (Finite rows, NotANumber) \<Rightarrow> NoCells
      | (Finite rows, Infinite) \<Rightarrow> (if rows = 0 then NoCells else Endless)
      | (NotANumber, _) \<Rightarrow> NoCells
      | (Infinite, _) \<Rightarrow> Endless)"

text \<open>A page pixel \<open>(px, py)\<close> lies in the rectangle a cell captures.\<close>

definition covers :: "cell \<Rightarrow> int \<times> int \<Rightarrow> bool" where
  "covers c p =
     (scrollX c \<le> fst p \<and> fst p < scrollX c + actualWidth c \<and>
      scrollY c \<le> snd p \<and> snd p < scrollY c + actualHeight c)"

subsection \<open>The planner as the specification words it\<close>

definition spec_count :: "int \<Rightarrow> int \<Rightarrow> nat" where
  "spec_count extent viewport =
     nat (max 1 \<lceil>(of_int extent :: rat) / of_int viewport\<rceil>)"

definition spec_offset :: "int \<Rightarrow> int \<Rightarrow> nat \<Rightarrow> int" where
  "spec_offset extent viewport col = min (int col * viewport) (max 0 (extent - viewport))"

definition spec_grid :: "page_metrics \<Rightarrow> cell list" where
  "spec_grid pm =
     concat (map (\<lambda>row. map (\<lambda>col.
        \<lparr> gridX = col, gridY = row,
          scrollX = spec_offset (scrollWidth pm) (viewportWidth pm) col,
          scrollY = spec_offset (scrollHeight pm) (viewportHeight pm) row,
          actualWidth = min (viewportWidth pm)
             (scrollWidth pm - spec_offset (scrollWidth pm) (viewportWidth pm) col),
          actualHeight = min (viewportHeight pm)
             (scrollHeight pm - spec_offset (scrollHeight pm) (viewportHeight pm) row) \<rparr>)
        [0..<spec_count (scrollWidth pm) (viewportWidth pm)])
        [0..<spec_count (scrollHeight pm) (viewportHeight pm)])"

section \<open>Options, errors and effects\<close>

text \<open>
  The options object built by the popup. \<open>quality\<close> is a fraction: the popup parses
  it with \<open>parseFloat\<close>, so it is a binary64 number (for the text \<open>0.8\<close>, the
  number \<open>binary64 (8 / 10)\<close>).
\<close>

record capture_options =
  quality :: rat
  format :: string
  captureSpeed :: string
  hideScrollbar :: bool
  waitForImages :: bool

text \<open>Every \<open>throw new Error(...)\<close> of the modelled functions, by its message.\<close>

datatype error =
    CaptureInProgress             \<comment> \<open>Screenshot capture already in progress\<close>
  | DimensionsInaccessible        \<comment> \<open>Unable to access page dimensions...\<close>
  | DimensionsMissing             \<comment> \<open>Failed to retrieve page dimensions\<close>
  | PrimitiveFailure string       \<comment> \<open>the error of \<open>captureVisibleTab\<close>, rethrown\<close>
  | RetriesExhausted              \<comment> \<open>Failed to capture screenshot after multiple retries\<close>
  | InvalidScreenshotData nat nat \<comment> \<open>Invalid screenshot data received for segment (x, y)\<close>
  | NoImagesCaptured              \<comment> \<open>No images were captured during the screenshot process\<close>
  | InvalidImageData nat          \<comment> \<open>Invalid image data at index i\<close>
  | InvalidImageDimensions nat    \<comment> \<open>Invalid image dimensions at index i\<close>
  | NoImagesProvided              \<comment> \<open>No images provided for combination\<close>
  | PageTooLarge int int          \<comment> \<open>Page too large to process. Canvas size: w x h ...\<close>

datatype severity = Info | Failure | Success

datatype message =
    RateLimitedRetrying nat nat   \<comment> \<open>Rate limited, retrying... (retryCount/maxRetries)\<close>
  | CapturedSegment nat count     \<comment> \<open>Captured segment i/totalSegments\<close>
  | SegmentError nat nat error    \<comment> \<open>Error capturing segment (x, y): message\<close>

datatype warning =
    DuplicateSegment nat nat      \<comment> \<open>Duplicate segment detected at (x, y), skipping...\<close>
  | SegmentCountMismatch count nat \<comment> \<open>Expected n segments but captured m. ...\<close>

text \<open>What the code does to the outside world, in the order it does it.\<close>

datatype effect =
    CaptureVisibleTab string int  \<comment> \<open>\<open>chrome.tabs.captureVisibleTab\<close>: format, quality\<close>
  | Sleep nat                     \<comment> \<open>\<open>setTimeout\<close> awaited, in ms\<close>
  | ScrollTo int int              \<comment> \<open>the injected \<open>window.scrollTo\<close>\<close>
  | UpdateStatus message severity
  | UpdateProgress count
  | Warn warning                  \<comment> \<open>\<open>console.warn\<close>\<close>

text \<open>
  A function that awaits returns \<open>None\<close> when an awaited call never settles, and
  otherwise \<open>Some\<close> of the thrown error or of the value; beside it, the effects so far.
\<close>

type_synonym 'a outcome = "(error + 'a) option"

definition emit :: "effect list \<Rightarrow> 'a \<times> effect list \<Rightarrow> 'a \<times> effect list" where
  "emit es r = (fst r, es @ snd r)"

text \<open>\<open>Math.round\<close> of a number: the nearest integer, halves upwards.\<close>

definition js_round :: "rat \<Rightarrow> int" where
  "js_round q = \<lfloor>q + 1 / 2\<rfloor>"

text \<open>\<open>s.includes(p)\<close>; \<open>s.startsWith(p)\<close> is \<open>prefix p s\<close>.\<close>

fun js_includes :: "string \<Rightarrow> string \<Rightarrow> bool" where
  "js_includes [] p = (p = [])"
| "js_includes (c # cs) p = (prefix p (c # cs) \<or> js_includes cs p)"

section \<open>\<open>captureScreenshotWithRetry\<close>\<close>

text \<open>
  The capture primitive is external. It is modelled by the outcomes of its successive
  calls: a call takes the next outcome of the script, and a call made when the script is
  used up never settles.
\<close>

datatype prim_outcome =
    Resolved string     \<comment> \<open>the promise resolves with a data URL\<close>
  | Rejected string     \<comment> \<open>the promise rejects with an error of this message\<close>

definition rate_limit_marker :: string where
  "rate_limit_marker = ''MAX_CAPTURE_VISIBLE_TAB_CALLS_PER_SECOND''"

text \<open>The request of every call: \<^verbatim>\<open>{ format: 'png', quality: Math.round(options.quality * 100) }\<close>\<close>

definition capture_request :: "capture_options \<Rightarrow> effect" where
  "capture_request opts =
     CaptureVisibleTab ''png'' (js_round (binary64 (quality opts * 100)))"

text \<open>
  The \<open>while (!screenshot && retryCount < maxRetries)\<close> loop, entered with
  \<open>screenshot = null\<close>. A resolved value that is falsy (the empty string) leaves
  \<open>screenshot\<close> falsy and \<open>retryCount\<close> unchanged, so the loop calls again. The
  result is the outcome, the effects, and the script that is left.
\<close>

fun retry_loop ::
  "capture_options \<Rightarrow> nat \<Rightarrow> nat \<Rightarrow> prim_outcome list
     \<Rightarrow> (string outcome \<times> effect list) \<times> prim_outcome list" where
  "retry_loop opts maxRetries retryCount [] =
     (if retryCount < maxRetries then ((None, [capture_request opts]), [])
      else ((Some (Inl RetriesExhausted), []), []))"
| "retry_loop opts maxRetries retryCount (r # script) =
     (if retryCount < maxRetries then
        (case r of
           Resolved s \<Rightarrow>
             if s = [] then
               apfst (emit [capture_request opts]) (retry_loop opts maxRetries retryCount script)
             else ((Some (Inr s), [capture_request opts]), script)
         | Rejected msg \<Rightarrow>
             if js_includes msg rate_limit_marker then
               apfst (emit [capture_request opts,
                            Sleep (min (1000 * Suc retryCount) 3000),
                            UpdateStatus (RateLimitedRetrying (Suc retryCount) maxRetries) Info])
                 (retry_loop opts maxRetries (Suc retryCount) script)
             else ((Some (Inl (PrimitiveFailure msg)), [capture_request opts]), script))
      else ((Some (Inl RetriesExhausted), []), r # script))"

definition captureScreenshotWithRetry ::
  "capture_options \<Rightarrow> nat \<Rightarrow> prim_outcome list
     \<Rightarrow> (string outcome \<times> effect list) \<times> prim_outcome list" where
  "captureScreenshotWithRetry opts maxRetries script = retry_loop opts maxRetries 0 script"

text \<open>Every caller leaves \<open>maxRetries\<close> at its default.\<close>

definition default_maxRetries :: nat where
  "default_maxRetries = 3"

section \<open>The capture loop of \<open>captureFullPage\<close>\<close>

text \<open>
  The objects pushed on \<open>images\<close>. The post-loop validation tests the type of the four
  geometry fields with \<open>typeof\<close>, so they are values of a dynamic type here (the
  \<open>timestamp\<close> field, \<open>Date.now()\<close>, is read by nothing and is left out).
\<close>

datatype jsval = JNum int | JStr string | JUndefined

record segment =
  dataUrl :: string
  seg_x :: jsval
  seg_y :: jsval
  seg_width :: jsval
  seg_height :: jsval

text \<open>\<open>RATE_LIMIT_DELAY\<close>: 500 unless the \<open>switch\<close> on \<open>captureSpeed\<close> changes it.\<close>

definition rate_limit_delay :: "capture_options \<Rightarrow> nat" where
  "rate_limit_delay opts =
     (if captureSpeed opts = ''slow'' then 1000
      else if captureSpeed opts = ''medium'' then 500
      else if captureSpeed opts = ''fast'' then 200
      else 500)"

text \<open>\<^verbatim>\<open>Math.round((segmentIndex / totalSegments) * 80) + 20\<close>, with \<open>segmentIndex > 0\<close>.\<close>

fun progress_of :: "nat \<Rightarrow> count \<Rightarrow> count" where
  "progress_of i (Finite n) =
     (if n = 0 then Infinite
      else Finite (nat (js_round (binary64 (binary64 (of_nat i / of_nat n) * 80)) + 20)))"
| "progress_of i Infinite = Finite 20"
| "progress_of i NotANumber = NotANumber"

text \<open>The state the loop carries: \<open>images\<close>, \<open>segmentIndex\<close> and the primitive's script.\<close>

type_synonym loop_state = "segment list \<times> nat \<times> prim_outcome list"

text \<open>
  One pass of the loop body for a cell. The injected scroll is taken to settle (when the
  injection throws, the code only warns and goes on to the same capture). A duplicate
  \<open>(x, y)\<close> is skipped by \<open>continue\<close>; every error thrown inside the \<open>try\<close> is
  reported by \<open>updateStatus\<close> and thrown again.
\<close>

definition capture_cell ::
  "capture_options \<Rightarrow> count \<Rightarrow> cell \<Rightarrow> loop_state \<Rightarrow> loop_state outcome \<times> effect list" where
  "capture_cell opts totalSegments c st =
     (case st of (images, segmentIndex, script) \<Rightarrow>
      emit [ScrollTo (scrollX c) (scrollY c), Sleep 500, Sleep 200]
       (case captureScreenshotWithRetry opts default_maxRetries script of
          ((None, tr), _) \<Rightarrow> (None, tr)
        | ((Some (Inl e), tr), _) \<Rightarrow>
            (Some (Inl e), tr @ [UpdateStatus (SegmentError (gridX c) (gridY c) e) Failure])
        | ((Some (Inr screenshot), tr), script') \<Rightarrow>
            if screenshot = [] \<or> \<not> prefix ''data:image/'' screenshot then
              (Some (Inl (InvalidScreenshotData (gridX c) (gridY c))),
               tr @ [UpdateStatus (SegmentError (gridX c) (gridY c)
                                     (InvalidScreenshotData (gridX c) (gridY c))) Failure])
            else if \<exists>img \<in> set images.
                      seg_x img = JNum (int (gridX c)) \<and> seg_y img = JNum (int (gridY c)) then
              (Some (Inr (images, segmentIndex, script')),
               tr @ [Warn (DuplicateSegment (gridX c) (gridY c))])
            else
              (Some (Inr (images @ [\<lparr> dataUrl = screenshot,
                                       seg_x = JNum (int (gridX c)),
                                       seg_y = JNum (int (gridY c)),
                                       seg_width = JNum (actualWidth c),
                                       seg_height = JNum (actualHeight c) \<rparr>],
                          Suc segmentIndex, script')),
               tr @ [UpdateProgress (progress_of (Suc segmentIndex) totalSegments),
                     UpdateStatus (CapturedSegment (Suc segmentIndex) totalSegments) Info]
                  @ (if js_less (Suc segmentIndex) totalSegments
                     then [Sleep (rate_limit_delay opts)] else []))))"

text \<open>The two loops over a finite grid: the body for each planned cell in turn.\<close>

fun capture_cells ::
  "capture_options \<Rightarrow> count \<Rightarrow> cell list \<Rightarrow> loop_state \<Rightarrow> loop_state outcome \<times> effect list" where
  "capture_cells opts totalSegments [] st = (Some (Inr st), [])"
| "capture_cells opts totalSegments (c # cs) st =
     (case capture_cell opts totalSegments c st of
        (Some (Inr st'), tr) \<Rightarrow> emit tr (capture_cells opts totalSegments cs st')
      | (r, tr) \<Rightarrow> (r, tr))"

text \<open>
  The loops when a count is \<open>Infinity\<close>: the \<open>k\<close>-th cell visited, if cells are
  visited at all (with an unbounded outer loop and no column, the loops spin without a
  cell).
\<close>

definition endless_cell :: "page_metrics \<Rightarrow> nat \<Rightarrow> cell option" where
  "endless_cell pm k =
     (case segments (scrollWidth pm) (viewportWidth pm) of
        Finite cols \<Rightarrow> if cols = 0 then None else Some (cell_at pm (k mod cols) (k div cols))
      | Infinite \<Rightarrow> Some (cell_at pm k 0)
      | NotANumber \<Rightarrow> None)"

text \<open>
  Such a loop ends only by a thrown error. Each pass calls the primitive at least once,
  so a script of \<open>n\<close> outcomes is used up after \<open>n\<close> passes at the latest and the
  next call never settles: \<open>n + 1\<close> passes decide the outcome, and running out of
  passes is the run that never returns.
\<close>

fun capture_unbounded ::
  "nat \<Rightarrow> capture_options \<Rightarrow> page_metrics \<Rightarrow> nat \<Rightarrow> loop_state
     \<Rightarrow> loop_state outcome \<times> effect list" where
  "capture_unbounded 0 opts pm k st = (None, [])"
| "capture_unbounded (Suc passes) opts pm k st =
     (case endless_cell pm k of
        None \<Rightarrow> (None, [])
      | Some c \<Rightarrow>
          (case capture_cell opts Infinite c st of
             (Some (Inr st'), tr) \<Rightarrow> emit tr (capture_unbounded passes opts pm (Suc k) st')
           | (r, tr) \<Rightarrow> (r, tr)))"

section \<open>The validation after the loop\<close>

text \<open>A captured tile whose geometry fields are numbers, as the compositor reads it.\<close>

record tile =
  tile_dataUrl :: string
  tile_x :: int
  tile_y :: int
  tile_width :: int
  tile_height :: int


text \<open>\<^verbatim>\<open>!img.dataUrl || !img.dataUrl.startsWith('data:image/')\<close> is the negation of this.\<close>

definition valid_data :: "string \<Rightarrow> bool" where
  "valid_data url = (url \<noteq> [] \<and> prefix ''data:image/'' url)"

fun to_tile :: "segment \<Rightarrow> tile option" where
  "to_tile img =
     (case (seg_x img, seg_y img, seg_width img, seg_height img) of
        (JNum x, JNum y, JNum w, JNum h) \<Rightarrow>
          Some \<lparr> tile_dataUrl = dataUrl img, tile_x = x, tile_y = y,
                 tile_width = w, tile_height = h \<rparr>
      | _ \<Rightarrow> None)"

text \<open>The \<open>for (let i = 0; i < images.length; i++)\<close> check, from index \<open>i\<close> on.\<close>

fun validate_from :: "nat \<Rightarrow> segment list \<Rightarrow> error + tile list" where
  "validate_from i [] = Inr []"
| "validate_from i (img # imgs) =
     (if \<not> valid_data (dataUrl img) then Inl (InvalidImageData i)
      else case to_tile img of
             None \<Rightarrow> Inl (InvalidImageDimensions i)
           | Some t \<Rightarrow>
               (case validate_from (Suc i) imgs of
                  Inl e \<Rightarrow> Inl e
                | Inr ts \<Rightarrow> Inr (t # ts)))"

text \<open>
  Everything after the loops: the three checks, the comparison of the number of images
  with \<open>segmentsX * segmentsY\<close> (a \<open>console.warn\<close>), and the sort by \<open>(y, x)\<close>.
\<close>

definition validate_images ::
  "segment list \<Rightarrow> count \<Rightarrow> count \<Rightarrow> (error + tile list) \<times> effect list" where
  "validate_images images segmentsX segmentsY =
     (if images = [] then (Inl NoImagesCaptured, [])
      else case validate_from 0 images of
             Inl e \<Rightarrow> (Inl e, [])
           | Inr ts \<Rightarrow>
               (Inr (sort_key (\<lambda>t. (tile_y t, tile_x t)) ts),
                if Finite (length images) \<noteq> js_times segmentsX segmentsY
                then [Warn (SegmentCountMismatch (js_times segmentsX segmentsY) (length images))]
                else []))"

section \<open>\<open>captureFullPage\<close>\<close>

text \<open>What the injected dimension query gives back.\<close>

datatype page_info =
    ScriptFailed            \<comment> \<open>\<open>executeScript\<close> throws\<close>
  | NoResult                \<comment> \<open>no frame result\<close>
  | Metrics page_metrics

text \<open>
  The end of the function for the outcome of the loops: a pending or thrown loop stays so,
  a finished one goes through the validation.
\<close>

definition finish_capture ::
  "count \<Rightarrow> count \<Rightarrow> loop_state outcome \<times> effect list \<Rightarrow> tile list outcome \<times> effect list" where
  "finish_capture segmentsX segmentsY r =
     (case r of
        (None, tr) \<Rightarrow> (None, tr)
      | (Some (Inl e), tr) \<Rightarrow> (Some (Inl e), tr)
      | (Some (Inr (images, _)), tr) \<Rightarrow>
          apfst Some (emit tr (validate_images images segmentsX segmentsY)))"

definition captureFullPage ::
  "capture_options \<Rightarrow> page_info \<Rightarrow> prim_outcome list \<Rightarrow> tile list outcome \<times> effect list" where
  "captureFullPage opts info script =
     (case info of
        ScriptFailed \<Rightarrow> (Some (Inl DimensionsInaccessible), [])
      | NoResult \<Rightarrow> (Some (Inl DimensionsMissing), [])
      | Metrics pm \<Rightarrow>
          (let segmentsX = segments (scrollWidth pm) (viewportWidth pm);
               segmentsY = segments (scrollHeight pm) (viewportHeight pm);
               totalSegments = js_times segmentsX segmentsY
           in finish_capture segmentsX segmentsY
                (case plan_grid pm of
                   Grid cells \<Rightarrow> capture_cells opts totalSegments cells ([], 0, script)
                 | NoCells \<Rightarrow> (Some (Inr ([], 0, script)), [])
                 | Endless \<Rightarrow>
                     capture_unbounded (Suc (length script)) opts pm 0 ([], 0, script))))"

section \<open>The compositor (\<open>combineImages\<close>, \<open>createPDF\<close>)\<close>

text \<open>
  The totals are products of pixel counts and are integers; the scale factor, the scaled
  totals and the arguments of \<open>drawImage\<close> are quotients and products of numbers,
  each rounded by \<open>binary64\<close>. The literal \<open>0.1\<close> is the number
  \<open>binary64 (1 / 10)\<close>.
\<close>

record composite =
  canvas_width :: int
  canvas_height :: int
  scale_factor :: rat
  draws :: "(rat \<times> rat \<times> rat \<times> rat) list"
  mime :: string

definition MAX_CANVAS_SIZE :: int where
  "MAX_CANVAS_SIZE = 32767"

text \<open>The first index whose image data fails the check, from index \<open>i\<close> on.\<close>

fun first_invalid :: "nat \<Rightarrow> tile list \<Rightarrow> nat option" where
  "first_invalid i [] = None"
| "first_invalid i (t # ts) =
     (if \<not> valid_data (tile_dataUrl t) then Some i else first_invalid (Suc i) ts)"

text \<open>
  \<^verbatim>\<open>Math.min(MAX_CANVAS_SIZE / totalWidth, MAX_CANVAS_SIZE / totalHeight, 1)\<close>:
  a quotient by 0 is \<open>Infinity\<close>, which never is the minimum (the branch is entered
  when one of the totals is above the limit, so the dividend is never divided into \<open>NaN\<close>).
\<close>

definition canvas_scale :: "int \<Rightarrow> int \<Rightarrow> rat" where
  "canvas_scale totalWidth totalHeight =
     fold min [binary64 (of_int MAX_CANVAS_SIZE / of_int t).
                 t \<leftarrow> [totalWidth, totalHeight], t \<noteq> 0] 1"

text \<open>
  The arguments of \<open>ctx.drawImage\<close> for one tile, position and size:
  \<^verbatim>\<open>imageData.x * imageData.width * scale\<close> (two products, from the left),
  \<^verbatim>\<open>imageData.y * imageData.height * scale\<close>, \<^verbatim>\<open>imageData.width * scale\<close> and
  \<^verbatim>\<open>imageData.height * scale\<close>.
\<close>

definition draw_rect :: "rat \<Rightarrow> tile \<Rightarrow> rat \<times> rat \<times> rat \<times> rat" where
  "draw_rect scale t =
     (binary64 (binary64 (of_int (tile_x t) * of_int (tile_width t)) * scale),
      binary64 (binary64 (of_int (tile_y t) * of_int (tile_height t)) * scale),
      binary64 (of_int (tile_width t) * scale),
      binary64 (of_int (tile_height t) * scale))"

text \<open>
  \<^verbatim>\<open>(Math.max(...images.map(img => img.x)) + 1) * images[0].width\<close> and the same for
  the height, for a list \<open>images\<close> whose first element is \<open>first\<close>.
\<close>

definition totalWidth_of :: "tile \<Rightarrow> tile list \<Rightarrow> int" where
  "totalWidth_of first images =
     (fold max (map tile_x images) (tile_x first) + 1) * tile_width first"

definition totalHeight_of :: "tile \<Rightarrow> tile list \<Rightarrow> int" where
  "totalHeight_of first images =
     (fold max (map tile_y images) (tile_y first) + 1) * tile_height first"

text \<open>
  The function injected by \<open>combineImages\<close> and by \<open>createPDF\<close>; they differ in
  the type the canvas is encoded to. Every image is taken to load (a load error or the
  10 s timeout rejects the whole composite).
\<close>

definition combine_layout :: "tile list \<Rightarrow> string \<Rightarrow> error + composite" where
  "combine_layout images mimeType =
     (case images of
        [] \<Rightarrow> Inl NoImagesProvided
      | first # _ \<Rightarrow>
          (case first_invalid 0 images of
             Some i \<Rightarrow> Inl (InvalidImageData i)
           | None \<Rightarrow>
               (let totalWidth = totalWidth_of first images;
                    totalHeight = totalHeight_of first images;
                    layout = (\<lambda>scale.
                      \<lparr> canvas_width = \<lfloor>binary64 (of_int totalWidth * scale)\<rfloor>,
                        canvas_height = \<lfloor>binary64 (of_int totalHeight * scale)\<rfloor>,
                        scale_factor = scale,
                        draws = map (draw_rect scale) images,
                        mime = mimeType \<rparr>)
                in if MAX_CANVAS_SIZE < totalWidth \<or> MAX_CANVAS_SIZE < totalHeight then
                     (let scale = canvas_scale totalWidth totalHeight
                      in if scale < binary64 (1 / 10)
                         then Inl (PageTooLarge totalWidth totalHeight)
                         else Inr (layout scale))
                   else Inr (layout 1))))"

text \<open>\<^verbatim>\<open>canvas.toDataURL(`image/${options.format}`, options.quality)\<close>\<close>

definition combineImages :: "tile list \<Rightarrow> capture_options \<Rightarrow> error + composite" where
  "combineImages images opts = combine_layout images (''image/'' @ format opts)"

text \<open>\<^verbatim>\<open>canvas.toDataURL('image/png', options.quality)\<close>\<close>

definition createPDF :: "tile list \<Rightarrow> capture_options \<Rightarrow> error + composite" where
  "createPDF images opts = combine_layout images ''image/png''"

definition processImages :: "tile list \<Rightarrow> capture_options \<Rightarrow> error + composite" where
  "processImages images opts =
     (if format opts = ''pdf'' then createPDF images opts else combineImages images opts)"

section \<open>\<open>captureScreenshot\<close> and its guard\<close>

record service =
  isCapturing :: bool

text \<open>The synchronous start of \<open>captureScreenshot\<close>: the test and the assignment.\<close>

definition enter_capture :: "service \<Rightarrow> (error + unit) \<times> service" where
  "enter_capture s =
     (if isCapturing s then (Inl CaptureInProgress, s)
      else (Inr (), s\<lparr>isCapturing := True\<rparr>))"

text \<open>The \<open>finally\<close> block.\<close>

definition leave_capture :: "service \<Rightarrow> service" where
  "leave_capture s = s\<lparr>isCapturing := False\<rparr>"

text \<open>
  The whole call, for the outcome \<open>body\<close> of the \<open>try\<close> block: \<open>None\<close> when it
  never settles, the thrown error, or the returned value. The \<open>throw\<close> of the guard
  stands before the \<open>try\<close>, so the \<open>finally\<close> block does not run for it.
\<close>

definition captureScreenshot :: "'a outcome \<Rightarrow> service \<Rightarrow> 'a outcome \<times> service" where
  "captureScreenshot body s =
     (case enter_capture s of
        (Inl e, s') \<Rightarrow> (Some (Inl e), s')
      | (Inr _, s') \<Rightarrow>
          (case body of
             None \<Rightarrow> (None, s')
           | Some r \<Rightarrow> (Some r, leave_capture s')))"

text \<open>The \<open>try\<close> block of a full-page run (the page preparation cannot fail the run).\<close>

definition full_page_body ::
  "capture_options \<Rightarrow> page_info \<Rightarrow> prim_outcome list \<Rightarrow> composite outcome \<times> effect list" where
  "full_page_body opts info script =
     (case captureFullPage opts info script of
        (None, tr) \<Rightarrow> (None, tr)
      | (Some (Inl e), tr) \<Rightarrow> (Some (Inl e), tr)
      | (Some (Inr images), tr) \<Rightarrow> (Some (processImages images opts), tr))"

text \<open>The \<open>try\<close> block of a visible-area run, up to the captured image.\<close>

definition captureVisibleArea ::
  "capture_options \<Rightarrow> prim_outcome list \<Rightarrow> string outcome \<times> effect list" where
  "captureVisibleArea opts script = fst (captureScreenshotWithRetry opts default_maxRetries script)"

text \<open>
  Calls arrive as messages, and JavaScript runs each synchronous stretch to its end
  before it takes the next message: between the start of a call and the settling of its
  body, other calls may start. A trace of such events, over the one
  \<open>ScreenshotCapture\<close> instance of the script:
\<close>

datatype event =
    Invoke nat      \<comment> \<open>call number \<open>n\<close> of \<open>captureScreenshot\<close> starts\<close>
  | Settle nat      \<comment> \<open>the body of call \<open>n\<close> returns or throws\<close>

record system =
  guard :: service
  running :: "nat list"
  rejected :: "nat list"

fun step :: "system \<Rightarrow> event \<Rightarrow> system" where
  "step sys (Invoke n) =
     (case enter_capture (guard sys) of
        (Inl e, s') \<Rightarrow> sys\<lparr>guard := s', rejected := rejected sys @ [n]\<rparr>
      | (Inr _, s') \<Rightarrow> sys\<lparr>guard := s', running := running sys @ [n]\<rparr>)"
| "step sys (Settle n) =
     (if n \<in> set (running sys)
      then sys\<lparr>guard := leave_capture (guard sys), running := removeAll n (running sys)\<rparr>
      else sys)"

definition run_events :: "system \<Rightarrow> event list \<Rightarrow> system" where
  "run_events = foldl step"

definition idle :: system where
  "idle = \<lparr>guard = \<lparr>isCapturing = False\<rparr>, running = [], rejected = []\<rparr>"

section \<open>Notions the properties are stated with\<close>

text \<open>At any moment at most one call runs, and the flag is set exactly while one does.\<close>

definition single_flight :: "system \<Rightarrow> bool" where
  "single_flight sys =
     (if isCapturing (guard sys) then length (running sys) = 1 else running sys = [])"

text \<open>The waits of a trace, in order, and its calls of the capture primitive.\<close>

fun waits :: "effect list \<Rightarrow> nat list" where
  "waits [] = []"
| "waits (Sleep n # es) = n # waits es"
| "waits (_ # es) = waits es"

fun is_capture :: "effect \<Rightarrow> bool" where
  "is_capture (CaptureVisibleTab _ _) = True"
| "is_capture _ = False"

text \<open>The effects of \<open>k\<close> rate-limited attempts made after \<open>retryCount\<close> earlier ones.\<close>

definition backoff_trace :: "capture_options \<Rightarrow> nat \<Rightarrow> nat \<Rightarrow> nat \<Rightarrow> effect list" where
  "backoff_trace opts maxRetries retryCount k =
     concat (map (\<lambda>n. [capture_request opts, Sleep (min (1000 * n) 3000),
                         UpdateStatus (RateLimitedRetrying n maxRetries) Info])
                 [Suc retryCount..<Suc (retryCount + k)])"

definition rate_limited :: "string \<Rightarrow> bool" where
  "rate_limited msg = js_includes msg rate_limit_marker"




text \<open>Every call of the capture primitive in a trace asks for a PNG at the rounded quality.\<close>

definition only_png :: "capture_options \<Rightarrow> effect list \<Rightarrow> bool" where
  "only_png opts tr =
     (\<forall>e \<in> set tr. is_capture e \<longrightarrow>
        e = CaptureVisibleTab ''png'' (js_round (binary64 (quality opts * 100))))"

section \<open>Properties of the tile geometry\<close>

lemma js_rem_pos_iff:
  assumes "0 < b"
  shows "0 < js_rem a b \<longleftrightarrow> 0 < a \<and> a mod b \<noteq> 0"
proof (cases "0 < a")
  case True
  with assms have "js_rem a b = a mod b" by (simp add: js_rem_def)
  moreover from assms have "0 \<le> a mod b" by simp
  ultimately show ?thesis using True by auto
next
  case False
  then have "sgn a \<le> 0" by (simp add: sgn_if)
  moreover have "0 \<le> \<bar>a\<bar> mod \<bar>b\<bar>" using assms by simp
  ultimately have "js_rem a b \<le> 0"
    unfolding js_rem_def by (simp add: mult_nonneg_nonpos2)
  with False show ?thesis by simp
qed

lemma segments_eq_spec_count:
  assumes "0 < viewport"
  shows "segments extent viewport = Finite (spec_count extent viewport)"
proof -
  have ceil: "\<lceil>(of_int extent :: rat) / of_int viewport\<rceil> = - (- extent div viewport)"
    by (rule ceiling_divide_eq_div)
  have up: "- (- extent div viewport)
              = extent div viewport + (if extent mod viewport = 0 then 0 else 1)"
    using assms by (simp add: zdiv_zminus1_eq_if)
  show ?thesis
  proof (cases "0 < extent")
    case True
    then show ?thesis
      using assms ceil up
      by (simp add: segments_def spec_count_def js_rem_pos_iff)
  next
    case False
    then have le: "extent div viewport \<le> 0"
      using assms by (simp add: div_nonpos_pos_le0)
    have le': "- (- extent div viewport) \<le> 0"
      using False assms by (simp add: pos_imp_zdiv_nonneg_iff)
    show ?thesis
      using assms False ceil le le'
      by (simp add: segments_def spec_count_def js_rem_pos_iff max_def)
  qed
qed

lemma scroll_pos_spec: "scroll_pos extent viewport i = spec_offset extent viewport i"
  by (simp add: scroll_pos_def spec_offset_def)

lemma cell_at_spec:
  "cell_at pm x y =
     \<lparr> gridX = x, gridY = y,
       scrollX = spec_offset (scrollWidth pm) (viewportWidth pm) x,
       scrollY = spec_offset (scrollHeight pm) (viewportHeight pm) y,
       actualWidth = min (viewportWidth pm)
          (scrollWidth pm - spec_offset (scrollWidth pm) (viewportWidth pm) x),
       actualHeight = min (viewportHeight pm)
          (scrollHeight pm - spec_offset (scrollHeight pm) (viewportHeight pm) y) \<rparr>"
  by (simp add: cell_at_def Let_def scroll_pos_spec actual_size_def)

lemma plan_grid_positive:
  assumes "0 < viewportWidth pm" and "0 < viewportHeight pm"
  shows "plan_grid pm = Grid (spec_grid pm)"
  using assms
  by (simp add: plan_grid_def segments_eq_spec_count spec_grid_def cell_at_spec)

text \<open>
  Claim C2. For a positive viewport the grid the loops visit is the grid of the
  specification's formulas: \<open>max(1, ceil(scrollWidth / viewportWidth))\<close> columns, the
  offset of column \<open>col\<close> is \<open>min(col * viewportWidth, max(0, scrollWidth - viewportWidth))\<close>
  and its width is \<open>min(viewportWidth, scrollWidth - offset)\<close>, the same for rows. For
  \<open>scrollWidth = 2500\<close> and \<open>viewportWidth = 1000\<close> there are 3 columns, at offsets
  0, 1000 and 1500, each 1000 wide.
\<close>

theorem planner_follows_spec:
  "(0 < viewportWidth pm \<and> 0 < viewportHeight pm \<longrightarrow> plan_grid pm = Grid (spec_grid pm))
   \<and> segments 2500 1000 = Finite 3
   \<and> map (scroll_pos 2500 1000) [0, 1, 2] = [0, 1000, 1500]
   \<and> map (\<lambda>col. actual_size 2500 1000 (scroll_pos 2500 1000 col)) [0, 1, 2]
        = [1000, 1000, 1000]"
  by (simp add: plan_grid_positive segments_def js_rem_def scroll_pos_def actual_size_def)

theorem planner_follows_spec_witness:
  "0 < viewportWidth \<lparr>scrollWidth = 2500, scrollHeight = 800,
                        viewportWidth = 1000, viewportHeight = 800\<rparr>
   \<and> 0 < viewportHeight \<lparr>scrollWidth = 2500, scrollHeight = 800,
                        viewportWidth = 1000, viewportHeight = 800\<rparr>
   \<and> plan_grid \<lparr>scrollWidth = 2500, scrollHeight = 800,
                 viewportWidth = 1000, viewportHeight = 800\<rparr>
     = Grid (spec_grid \<lparr>scrollWidth = 2500, scrollHeight = 800,
                         viewportWidth = 1000, viewportHeight = 800\<rparr>)"
  using planner_follows_spec [of "\<lparr>scrollWidth = 2500, scrollHeight = 800,
                                   viewportWidth = 1000, viewportHeight = 800\<rparr>"]
  by simp

subsection \<open>Coverage of the page\<close>

text \<open>What holds of the planned tiles: they leave no gap and stay inside the page.\<close>

lemma spec_count_bound:
  assumes "0 < vw" and "0 \<le> p" and "p < sw"
  shows "nat (p div vw) < spec_count sw vw"
proof -
  have ceil: "\<lceil>(of_int sw :: rat) / of_int vw\<rceil> = - (- sw div vw)"
    by (rule ceiling_divide_eq_div)
  have up: "- (- sw div vw) = sw div vw + (if sw mod vw = 0 then 0 else 1)"
    using assms by (simp add: zdiv_zminus1_eq_if)
  have mono: "p div vw \<le> sw div vw"
    using assms by (simp add: zdiv_mono1)
  have "p div vw < - (- sw div vw)"
  proof (cases "sw mod vw = 0")
    case False
    with up mono show ?thesis by simp
  next
    case True
    then have "sw div vw * vw = sw" by (simp add: mod_0_imp_dvd)
    moreover have "p div vw * vw + p mod vw = p" by simp
    moreover have "0 \<le> p mod vw" using assms by simp
    ultimately have "p div vw * vw < sw div vw * vw" using assms by linarith
    then have "p div vw < sw div vw"
      using assms by (simp add: mult_less_cancel_right)
    with up True show ?thesis by simp
  qed
  moreover have "0 \<le> p div vw"
    using assms by (simp add: pos_imp_zdiv_nonneg_iff)
  ultimately show ?thesis
    by (simp add: spec_count_def ceil)
qed

lemma axis_no_gap:
  assumes "0 < vw" and "0 \<le> p" and "p < sw"
  shows "\<exists>i < spec_count sw vw.
           scroll_pos sw vw i \<le> p
           \<and> p < scroll_pos sw vw i + actual_size sw vw (scroll_pos sw vw i)"
proof -
  define i where "i = nat (p div vw)"
  have i0: "0 \<le> p div vw"
    using assms by (simp add: pos_imp_zdiv_nonneg_iff)
  then have ii: "int i = p div vw" by (simp add: i_def)
  have "p div vw * vw + p mod vw = p" by simp
  moreover have "0 \<le> p mod vw" "p mod vw < vw" using assms by simp_all
  ultimately have lo: "int i * vw \<le> p" and hi: "p < int i * vw + vw"
    unfolding ii by linarith+
  have bound: "i < spec_count sw vw"
    unfolding i_def by (rule spec_count_bound [OF assms])
  have "scroll_pos sw vw i \<le> p
        \<and> p < scroll_pos sw vw i + actual_size sw vw (scroll_pos sw vw i)"
    using lo hi assms by (auto simp: scroll_pos_def actual_size_def min_def max_def)
  with bound show ?thesis by blast
qed

lemma axis_in_page:
  assumes "0 < vw" and "0 \<le> sw"
  shows "0 \<le> scroll_pos sw vw i
         \<and> scroll_pos sw vw i + actual_size sw vw (scroll_pos sw vw i) \<le> sw"
  using assms by (auto simp: scroll_pos_def actual_size_def min_def max_def)

lemma plan_grid_no_gap:
  assumes vp: "0 < viewportWidth pm" "0 < viewportHeight pm"
    and px: "0 \<le> px" "px < scrollWidth pm" and py: "0 \<le> py" "py < scrollHeight pm"
  shows "\<exists>cells. plan_grid pm = Grid cells \<and> (\<exists>c \<in> set cells. covers c (px, py))"
proof -
  obtain x where x: "x < spec_count (scrollWidth pm) (viewportWidth pm)"
      "scroll_pos (scrollWidth pm) (viewportWidth pm) x \<le> px"
      "px < scroll_pos (scrollWidth pm) (viewportWidth pm) x
            + actual_size (scrollWidth pm) (viewportWidth pm)
                (scroll_pos (scrollWidth pm) (viewportWidth pm) x)"
    using axis_no_gap [OF vp(1) px] by blast
  obtain y where y: "y < spec_count (scrollHeight pm) (viewportHeight pm)"
      "scroll_pos (scrollHeight pm) (viewportHeight pm) y \<le> py"
      "py < scroll_pos (scrollHeight pm) (viewportHeight pm) y
            + actual_size (scrollHeight pm) (viewportHeight pm)
                (scroll_pos (scrollHeight pm) (viewportHeight pm) y)"
    using axis_no_gap [OF vp(2) py] by blast
  have cov: "covers (cell_at pm x y) (px, py)"
    using x y by (simp add: covers_def cell_at_def Let_def)
  have mem: "cell_at pm x y \<in> set (concat (map (\<lambda>y. map (\<lambda>x. cell_at pm x y)
                 [0..<spec_count (scrollWidth pm) (viewportWidth pm)])
                 [0..<spec_count (scrollHeight pm) (viewportHeight pm)]))"
    using x(1) y(1) by (simp, intro bexI [of _ y] image_eqI [of _ _ x]) simp_all
  have "plan_grid pm = Grid (concat (map (\<lambda>y. map (\<lambda>x. cell_at pm x y)
                 [0..<spec_count (scrollWidth pm) (viewportWidth pm)])
                 [0..<spec_count (scrollHeight pm) (viewportHeight pm)]))"
    using vp by (simp add: plan_grid_def segments_eq_spec_count)
  with cov mem show ?thesis by blast
qed

text \<open>
  Claim C1. The tiles of a positive viewport are meant to tile the page rectangle without
  gap and without overlap. They leave no gap (\<open>plan_grid_no_gap\<close>), but they
  overlap whenever the viewport does not divide a larger page: the offset of the last
  column is clamped to \<open>scrollWidth - viewportWidth\<close> and its width is computed
  from the clamped offset, which gives the full viewport width again. At \<open>scrollWidth = 2500\<close>, \<open>viewportWidth = 1000\<close> the
  planned columns are \<open>[0, 1000)\<close>, \<open>[1000, 2000)\<close> and \<open>[1500, 2500)\<close>: the
  page pixel \<open>(1500, 0)\<close> lies in the tiles of columns 1 and 2, and the widths add up
  to 3000, not 2500. The composite of that run is 3000 pixels wide, the third tile drawn
  at 2000: the strip \<open>[1500, 2000)\<close> of the page appears twice.
\<close>

theorem clamped_last_column_overlaps:
  "(case plan_grid \<lparr>scrollWidth = 2500, scrollHeight = 800,
                     viewportWidth = 1000, viewportHeight = 800\<rparr> of
      Grid cells \<Rightarrow>
        map (\<lambda>c. (scrollX c, actualWidth c)) cells = [(0, 1000), (1000, 1000), (1500, 1000)]
        \<and> map gridX (filter (\<lambda>c. covers c (1500, 0)) cells) = [1, 2]
        \<and> sum_list (map actualWidth cells) = 3000
    | _ \<Rightarrow> False)
   \<and> (case fst (full_page_body
                  \<lparr>quality = binary64 (8 / 10), format = ''png'', captureSpeed = ''medium'',
                   hideScrollbar = True, waitForImages = True\<rparr>
                  (Metrics \<lparr>scrollWidth = 2500, scrollHeight = 800,
                            viewportWidth = 1000, viewportHeight = 800\<rparr>)
                  [Resolved ''data:image/png;base64,AA'', Resolved ''data:image/png;base64,BB'',
                   Resolved ''data:image/png;base64,CC'']) of
         Some (Inr c) \<Rightarrow>
           canvas_width c = 3000 \<and> draws c = [(0, 0, 1000, 800), (1000, 0, 1000, 800),
                                                (2000, 0, 1000, 800)]
       | _ \<Rightarrow> False)"
proof
  show "case plan_grid \<lparr>scrollWidth = 2500, scrollHeight = 800,
                     viewportWidth = 1000, viewportHeight = 800\<rparr> of
      Grid cells \<Rightarrow>
        map (\<lambda>c. (scrollX c, actualWidth c)) cells = [(0, 1000), (1000, 1000), (1500, 1000)]
        \<and> map gridX (filter (\<lambda>c. covers c (1500, 0)) cells) = [1, 2]
        \<and> sum_list (map actualWidth cells) = 3000
    | _ \<Rightarrow> False"
    by (simp add: plan_grid_def segments_def js_rem_def cell_at_def scroll_pos_def
          actual_size_def covers_def upt_rec)
  show "case fst (full_page_body
                  \<lparr>quality = binary64 (8 / 10), format = ''png'', captureSpeed = ''medium'',
                   hideScrollbar = True, waitForImages = True\<rparr>
                  (Metrics \<lparr>scrollWidth = 2500, scrollHeight = 800,
                            viewportWidth = 1000, viewportHeight = 800\<rparr>)
                  [Resolved ''data:image/png;base64,AA'', Resolved ''data:image/png;base64,BB'',
                   Resolved ''data:image/png;base64,CC'']) of
         Some (Inr c) \<Rightarrow>
           canvas_width c = 3000 \<and> draws c = [(0, 0, 1000, 800), (1000, 0, 1000, 800),
                                                (2000, 0, 1000, 800)]
       | _ \<Rightarrow> False"
    by code_simp
qed

subsection \<open>Viewports that are not positive\<close>

lemma segments_negative_viewport:
  assumes "viewport < 0" and "0 \<le> extent"
  shows "segments extent viewport = Finite 1"
proof (cases "extent = 0")
  case True
  with assms show ?thesis by (simp add: segments_def js_rem_def)
next
  case False
  with assms have "0 < extent" by simp
  with assms have "extent div viewport < 0"
    by (simp add: neg_imp_zdiv_neg_iff)
  with assms show ?thesis by (simp add: segments_def)
qed

lemma segments_zero_viewport:
  "segments extent 0 = (if 0 < extent then Infinite else if extent = 0 then NotANumber else Finite 1)"
  by (simp add: segments_def)

lemma segments_nonzero_viewport:
  assumes "viewport \<noteq> 0"
  shows "\<exists>n. segments extent viewport = Finite n \<and> 0 < n"
  using assms by (simp add: segments_def)

lemma concat_rows_nonempty:
  assumes "0 < rows" and "0 < cols"
  shows "concat (map (\<lambda>y. map (\<lambda>x. f x y) [0..<cols]) [0..<rows]) \<noteq> []"
proof -
  from assms have "[0..<rows] = 0 # [1..<rows]" and "[0..<cols] = 0 # [1..<cols]"
    by (simp_all add: upt_rec)
  then show ?thesis by simp
qed

lemma plan_grid_nonzero_viewport:
  assumes "viewportWidth pm \<noteq> 0" and "viewportHeight pm \<noteq> 0"
  shows "\<exists>cells. plan_grid pm = Grid cells \<and> cells \<noteq> []"
proof -
  obtain cols where c: "segments (scrollWidth pm) (viewportWidth pm) = Finite cols" "0 < cols"
    using segments_nonzero_viewport [OF assms(1)] by blast
  obtain rows where r: "segments (scrollHeight pm) (viewportHeight pm) = Finite rows" "0 < rows"
    using segments_nonzero_viewport [OF assms(2)] by blast
  have "plan_grid pm = Grid (concat (map (\<lambda>y. map (\<lambda>x. cell_at pm x y) [0..<cols]) [0..<rows]))"
    using c r by (simp add: plan_grid_def)
  with concat_rows_nonempty [OF r(2) c(2)] show ?thesis by blast
qed

lemma plan_grid_zero_viewport:
  assumes "viewportWidth pm = 0 \<or> viewportHeight pm = 0"
    and "0 \<le> scrollWidth pm" and "0 \<le> scrollHeight pm"
  shows "plan_grid pm = NoCells \<or> plan_grid pm = Endless"
proof (cases "viewportHeight pm = 0")
  case True
  with assms(3) show ?thesis
    by (simp add: plan_grid_def segments_def)
next
  case False
  with assms have "viewportWidth pm = 0" by simp
  with assms(2) False show ?thesis
    by (simp add: plan_grid_def segments_def)
qed

text \<open>
  A capture that returns an image has taken at least one outcome from the script, so the
  number of passes granted to an unbounded loop, once above the length of the script,
  does not change its outcome.
\<close>

lemma retry_loop_consumes:
  assumes "retry_loop opts mx rc script = ((Some (Inr s), tr), script')"
  shows "length script' < length script"
  using assms
proof (induction script arbitrary: rc tr)
  case Nil
  then show ?case by (simp split: if_splits)
next
  case (Cons r script)
  show ?case
  proof (cases "rc < mx")
    case False
    with Cons.prems show ?thesis by simp
  next
    case True
    note lt = this
    show ?thesis
    proof (cases r)
      case (Resolved v)
      show ?thesis
      proof (cases "v = []")
        case False
        with Cons.prems lt Resolved show ?thesis by simp
      next
        case True
        obtain r' tr' s' where rec: "retry_loop opts mx rc script = ((r', tr'), s')"
          by (metis surj_pair)
        with Cons.prems lt Resolved True have "r' = Some (Inr s)" "s' = script'"
          by (simp_all add: emit_def)
        with rec Cons.IH [of rc tr'] show ?thesis by simp
      qed
    next
      case (Rejected msg)
      show ?thesis
      proof (cases "js_includes msg rate_limit_marker")
        case False
        with Cons.prems lt Rejected show ?thesis by simp
      next
        case True
        obtain r' tr' s' where rec: "retry_loop opts mx (Suc rc) script = ((r', tr'), s')"
          by (metis surj_pair)
        with Cons.prems lt Rejected True have "r' = Some (Inr s)" "s' = script'"
          by (simp_all add: emit_def)
        with rec Cons.IH [of "Suc rc" tr'] show ?thesis by simp
      qed
    qed
  qed
qed

lemma capture_cell_consumes:
  assumes "capture_cell opts t c (images, i, script) = (Some (Inr (images', i', script')), tr)"
  shows "length script' < length script"
proof -
  obtain r tr0 s0 where
    cr: "captureScreenshotWithRetry opts default_maxRetries script = ((r, tr0), s0)"
    by (metis surj_pair)
  from assms cr have "\<exists>shot. r = Some (Inr shot)" and "s0 = script'"
    by (auto simp: capture_cell_def emit_def split: option.splits sum.splits if_splits)
  with cr show ?thesis
    using retry_loop_consumes [of opts default_maxRetries 0 script _ tr0 s0]
    by (auto simp: captureScreenshotWithRetry_def)
qed

lemma capture_unbounded_passes:
  assumes "length script < passes" and "length script < passes'"
  shows "capture_unbounded passes opts pm k (images, i, script)
         = capture_unbounded passes' opts pm k (images, i, script)"
  using assms
proof (induction passes arbitrary: passes' k images i script)
  case 0
  then show ?case by simp
next
  case (Suc n)
  from Suc.prems obtain n' where n': "passes' = Suc n'" by (cases passes') simp_all
  show ?case
  proof (cases "endless_cell pm k")
    case None
    with n' show ?thesis by simp
  next
    case (Some c)
    obtain r tr where cc: "capture_cell opts Infinite c (images, i, script) = (r, tr)"
      by (cases "capture_cell opts Infinite c (images, i, script)")
    show ?thesis
    proof (cases r)
      case None
      with Some cc n' show ?thesis by simp
    next
      case (Some res)
      note res = this
      show ?thesis
      proof (cases res)
        case (Inl e)
        with res \<open>endless_cell pm k = Some c\<close> cc n' show ?thesis by simp
      next
        case (Inr st')
        obtain images' i' script' where st': "st' = (images', i', script')"
          by (cases st')
        from cc res Inr st' have "length script' < length script"
          using capture_cell_consumes by blast
        with Suc.prems n' have "length script' < n" "length script' < n'" by simp_all
        from Suc.IH [OF this]
        have "capture_unbounded n opts pm (Suc k) (images', i', script')
              = capture_unbounded n' opts pm (Suc k) (images', i', script')" .
        with res Inr st' \<open>endless_cell pm k = Some c\<close> cc n' show ?thesis by simp
      qed
    qed
  qed
qed

lemma capture_unbounded_never_returns:
  "fst (capture_unbounded passes opts pm k st) \<noteq> Some (Inr st')"
proof (induction passes arbitrary: k st)
  case 0
  show ?case by simp
next
  case (Suc passes)
  show ?case
  proof (cases "endless_cell pm k")
    case None
    then show ?thesis by simp
  next
    case (Some c)
    obtain r tr where ct: "capture_cell opts Infinite c st = (r, tr)"
      by (cases "capture_cell opts Infinite c st")
    show ?thesis
    proof (cases r)
      case None
      with Some ct show ?thesis by simp
    next
      case (Some res)
      note res = this
      show ?thesis
      proof (cases res)
        case (Inl e)
        with res \<open>endless_cell pm k = Some c\<close> ct show ?thesis by simp
      next
        case (Inr st2)
        with res \<open>endless_cell pm k = Some c\<close> ct Suc.IH [of "Suc k" st2]
        show ?thesis by (simp add: emit_def)
      qed
    qed
  qed
qed

lemma captureFullPage_NoCells:
  assumes "plan_grid pm = NoCells"
  shows "captureFullPage opts (Metrics pm) script = (Some (Inl NoImagesCaptured), [])"
  using assms
  by (simp add: captureFullPage_def Let_def finish_capture_def validate_images_def emit_def)

lemma captureFullPage_Endless:
  assumes "plan_grid pm = Endless"
  shows "fst (captureFullPage opts (Metrics pm) script) \<noteq> Some (Inr tiles)"
proof -
  obtain r tr where cu:
    "capture_unbounded (Suc (length script)) opts pm 0 ([], 0, script) = (r, tr)"
    by (cases "capture_unbounded (Suc (length script)) opts pm 0 ([], 0, script)")
  have "r \<noteq> Some (Inr st')" for st'
    using capture_unbounded_never_returns [of "Suc (length script)" opts pm 0 "([], 0, script)" st'] cu
    by simp
  then have "r = None \<or> (\<exists>e. r = Some (Inl e))"
  proof (cases r)
    case None
    then show ?thesis by simp
  next
    case (Some res)
    with \<open>\<And>st'. r \<noteq> Some (Inr st')\<close> show ?thesis by (cases res) auto
  qed
  with assms cu show ?thesis
    by (auto simp: captureFullPage_def Let_def finish_capture_def
             simp del: capture_unbounded.simps)
qed

text \<open>
  Claim C7, as amended. The code has no check of the viewport and no failure for it. With
  both viewport dimensions different from 0 (negative ones included) the loops visit a
  non-empty grid. With a viewport dimension of 0 (and scroll dimensions that are not
  negative) a segment count is \<open>NaN\<close> or \<open>Infinity\<close>: either no cell is visited
  and the run fails with "No images were captured", or the loops have no end and the
  run never returns its tiles. A negative viewport dimension over a non-negative extent
  gives one segment at offset 0 whose size is that negative dimension.
\<close>

theorem viewport_not_validated:
  "(viewportWidth pm \<noteq> 0 \<and> viewportHeight pm \<noteq> 0
      \<longrightarrow> (\<exists>cells. plan_grid pm = Grid cells \<and> cells \<noteq> []))
   \<and> ((viewportWidth pm = 0 \<or> viewportHeight pm = 0)
        \<and> 0 \<le> scrollWidth pm \<and> 0 \<le> scrollHeight pm
      \<longrightarrow> (plan_grid pm = NoCells
            \<and> captureFullPage opts (Metrics pm) script = (Some (Inl NoImagesCaptured), []))
          \<or> (plan_grid pm = Endless
            \<and> (\<forall>tiles. fst (captureFullPage opts (Metrics pm) script) \<noteq> Some (Inr tiles))))
   \<and> (viewport < 0 \<and> 0 \<le> extent
      \<longrightarrow> segments extent viewport = Finite 1 \<and> scroll_pos extent viewport 0 = 0
          \<and> actual_size extent viewport (scroll_pos extent viewport 0) = viewport)"
proof (intro conjI impI)
  assume "viewportWidth pm \<noteq> 0 \<and> viewportHeight pm \<noteq> 0"
  then show "\<exists>cells. plan_grid pm = Grid cells \<and> cells \<noteq> []"
    by (simp add: plan_grid_nonzero_viewport)
next
  assume a: "(viewportWidth pm = 0 \<or> viewportHeight pm = 0)
        \<and> 0 \<le> scrollWidth pm \<and> 0 \<le> scrollHeight pm"
  then have "plan_grid pm = NoCells \<or> plan_grid pm = Endless"
    by (simp add: plan_grid_zero_viewport)
  then show "(plan_grid pm = NoCells
            \<and> captureFullPage opts (Metrics pm) script = (Some (Inl NoImagesCaptured), []))
          \<or> (plan_grid pm = Endless
            \<and> (\<forall>tiles. fst (captureFullPage opts (Metrics pm) script) \<noteq> Some (Inr tiles)))"
    using captureFullPage_NoCells captureFullPage_Endless by blast
next
  assume "viewport < 0 \<and> 0 \<le> extent"
  then show "segments extent viewport = Finite 1" by (simp add: segments_negative_viewport)
next
  assume "viewport < 0 \<and> 0 \<le> extent"
  then show "scroll_pos extent viewport 0 = 0" by (simp add: scroll_pos_def)
next
  assume "viewport < 0 \<and> 0 \<le> extent"
  then show "actual_size extent viewport (scroll_pos extent viewport 0) = viewport"
    by (simp add: scroll_pos_def actual_size_def)
qed

theorem viewport_not_validated_witness:
  "viewportWidth \<lparr>scrollWidth = 1000, scrollHeight = 800,
                    viewportWidth = - 100, viewportHeight = 800\<rparr> \<noteq> 0
   \<and> viewportHeight \<lparr>scrollWidth = 1000, scrollHeight = 800,
                       viewportWidth = - 100, viewportHeight = 800\<rparr> \<noteq> 0
   \<and> (\<exists>cells. plan_grid \<lparr>scrollWidth = 1000, scrollHeight = 800,
                             viewportWidth = - 100, viewportHeight = 800\<rparr> = Grid cells
               \<and> cells \<noteq> [])
   \<and> (- 100 :: int) < 0 \<and> (0 :: int) \<le> 1000
   \<and> segments 1000 (- 100) = Finite 1 \<and> scroll_pos 1000 (- 100) 0 = 0
   \<and> actual_size 1000 (- 100) (scroll_pos 1000 (- 100) 0) = - 100
   \<and> viewportWidth \<lparr>scrollWidth = 1000, scrollHeight = 800,
                      viewportWidth = 0, viewportHeight = 800\<rparr> = 0
   \<and> plan_grid \<lparr>scrollWidth = 1000, scrollHeight = 800,
                  viewportWidth = 0, viewportHeight = 800\<rparr> = Endless
   \<and> (\<forall>tiles. fst (captureFullPage
                      \<lparr>quality = binary64 (8 / 10), format = ''png'', captureSpeed = ''medium'',
                       hideScrollbar = True, waitForImages = True\<rparr>
                      (Metrics \<lparr>scrollWidth = 1000, scrollHeight = 800,
                                viewportWidth = 0, viewportHeight = 800\<rparr>)
                      [Resolved ''data:image/png;base64,AA''])
                \<noteq> Some (Inr tiles))"
proof -
  have endless: "plan_grid \<lparr>scrollWidth = 1000, scrollHeight = 800,
                            viewportWidth = 0, viewportHeight = 800\<rparr> = Endless"
    by (simp add: plan_grid_def segments_def js_rem_def)
  show ?thesis
    using viewport_not_validated
      [where pm = "\<lparr>scrollWidth = 1000, scrollHeight = 800,
                    viewportWidth = - 100, viewportHeight = 800\<rparr>"
         and viewport = "- 100" and extent = 1000]
      viewport_not_validated
      [where pm = "\<lparr>scrollWidth = 1000, scrollHeight = 800,
                    viewportWidth = 0, viewportHeight = 800\<rparr>"
         and opts = "\<lparr>quality = binary64 (8 / 10), format = ''png'', captureSpeed = ''medium'',
                       hideScrollbar = True, waitForImages = True\<rparr>"
         and script = "[Resolved ''data:image/png;base64,AA'']"]
      endless
    by auto
qed

text \<open>
  Claim C7 as stated fails: with a viewport width of \<open>-100\<close> the planner produces a
  grid of one tile, 100 pixels wide in the negative, and the run returns it.
\<close>

theorem negative_viewport_counterexample:
  "plan_grid \<lparr>scrollWidth = 1000, scrollHeight = 800,
               viewportWidth = - 100, viewportHeight = 800\<rparr>
     = Grid [\<lparr>gridX = 0, gridY = 0, scrollX = 0, scrollY = 0,
              actualWidth = - 100, actualHeight = 800\<rparr>]
   \<and> fst (captureFullPage
            \<lparr>quality = binary64 (8 / 10), format = ''png'', captureSpeed = ''medium'',
             hideScrollbar = True, waitForImages = True\<rparr>
            (Metrics \<lparr>scrollWidth = 1000, scrollHeight = 800,
                      viewportWidth = - 100, viewportHeight = 800\<rparr>)
            [Resolved ''data:image/png;base64,AA''])
     = Some (Inr [\<lparr>tile_dataUrl = ''data:image/png;base64,AA'', tile_x = 0, tile_y = 0,
                    tile_width = - 100, tile_height = 800\<rparr>])"
  by code_simp

section \<open>The single-flight guard\<close>

lemma single_flight_step:
  assumes "single_flight sys"
  shows "single_flight (step sys ev)"
proof (cases ev)
  case (Invoke n)
  with assms show ?thesis
    by (auto simp: single_flight_def enter_capture_def split: if_splits)
next
  case (Settle n)
  show ?thesis
  proof (cases "n \<in> set (running sys)")
    case False
    with Settle assms show ?thesis by simp
  next
    case True
    with assms obtain m where "running sys = [m]"
      by (cases "running sys") (auto simp: single_flight_def split: if_splits)
    with True Settle show ?thesis
      by (simp add: single_flight_def leave_capture_def)
  qed
qed

lemma single_flight_run:
  assumes "single_flight sys"
  shows "single_flight (run_events sys evs)"
  using assms unfolding run_events_def
  by (induction evs arbitrary: sys) (simp_all add: single_flight_step)

lemma single_flight_idle: "single_flight idle"
  by (simp add: single_flight_def idle_def)

text \<open>
  Claim C3. A call of \<open>captureScreenshot\<close> made while the flag is set throws
  "Screenshot capture already in progress" at once: its body is not run and the state is
  unchanged. Of two calls started one after the other with no settling between them,
  the first runs and the second is rejected; over any trace of calls and settlings at
  most one call runs, and a call started while one runs is rejected.
\<close>

theorem second_call_rejected:
  "(isCapturing s \<longrightarrow> captureScreenshot body s = (Some (Inl CaptureInProgress), s))
   \<and> run_events idle [Invoke a, Invoke b]
       = \<lparr>guard = \<lparr>isCapturing = True\<rparr>, running = [a], rejected = [b]\<rparr>
   \<and> length (running (run_events idle evs)) \<le> 1
   \<and> (isCapturing (guard (run_events idle evs)) \<longrightarrow>
        step (run_events idle evs) (Invoke c)
          = (run_events idle evs)\<lparr>rejected := rejected (run_events idle evs) @ [c]\<rparr>)"
proof (intro conjI impI)
  assume "isCapturing s"
  then show "captureScreenshot body s = (Some (Inl CaptureInProgress), s)"
    by (simp add: captureScreenshot_def enter_capture_def)
next
  show "run_events idle [Invoke a, Invoke b]
       = \<lparr>guard = \<lparr>isCapturing = True\<rparr>, running = [a], rejected = [b]\<rparr>"
    by (simp add: run_events_def idle_def enter_capture_def)
next
  have "single_flight (run_events idle evs)"
    by (rule single_flight_run [OF single_flight_idle])
  then show "length (running (run_events idle evs)) \<le> 1"
    by (simp add: single_flight_def split: if_splits)
next
  assume "isCapturing (guard (run_events idle evs))"
  then show "step (run_events idle evs) (Invoke c)
          = (run_events idle evs)\<lparr>rejected := rejected (run_events idle evs) @ [c]\<rparr>"
    by (simp add: enter_capture_def)
qed

theorem second_call_rejected_witness:
  "isCapturing \<lparr>isCapturing = True\<rparr>
   \<and> captureScreenshot (Some (Inr (0::nat))) \<lparr>isCapturing = True\<rparr>
       = (Some (Inl CaptureInProgress), \<lparr>isCapturing = True\<rparr>)
   \<and> isCapturing (guard (run_events idle [Invoke 1]))
   \<and> step (run_events idle [Invoke 1]) (Invoke 2)
       = (run_events idle [Invoke 1])\<lparr>rejected := rejected (run_events idle [Invoke 1]) @ [2]\<rparr>"
proof -
  have g: "isCapturing (guard (run_events idle [Invoke 1]))"
    by (simp add: run_events_def idle_def enter_capture_def)
  show ?thesis
    using second_call_rejected
      [where s = "\<lparr>isCapturing = True\<rparr>" and body = "Some (Inr (0::nat))"
         and evs = "[Invoke 1]" and c = 2] g
    by simp
qed

text \<open>
  Claim C8. A run that acquired the guard and whose body settles, by returning or by
  throwing any error, hands that outcome to the caller with the flag cleared (the
  \<open>finally\<close> block), so the next call is admitted and runs its own body.
\<close>

theorem guard_released_on_exit:
  "\<not> isCapturing s \<and> body \<noteq> None \<longrightarrow>
     fst (captureScreenshot body s) = body
     \<and> \<not> isCapturing (snd (captureScreenshot body s))
     \<and> fst (captureScreenshot next_body (snd (captureScreenshot body s))) = next_body"
  by (auto simp: captureScreenshot_def enter_capture_def leave_capture_def
           split: option.splits)

theorem guard_released_on_exit_witness:
  "\<not> isCapturing \<lparr>isCapturing = False\<rparr>
   \<and> fst (full_page_body
            \<lparr>quality = binary64 (8 / 10), format = ''png'', captureSpeed = ''medium'',
             hideScrollbar = True, waitForImages = True\<rparr>
            (Metrics \<lparr>scrollWidth = 1000, scrollHeight = 800,
                      viewportWidth = 1000, viewportHeight = 800\<rparr>)
            [Rejected ''boom'']) = Some (Inl (PrimitiveFailure ''boom''))
   \<and> \<not> isCapturing (snd (captureScreenshot
         (fst (full_page_body
            \<lparr>quality = binary64 (8 / 10), format = ''png'', captureSpeed = ''medium'',
             hideScrollbar = True, waitForImages = True\<rparr>
            (Metrics \<lparr>scrollWidth = 1000, scrollHeight = 800,
                      viewportWidth = 1000, viewportHeight = 800\<rparr>)
            [Rejected ''boom''])) \<lparr>isCapturing = False\<rparr>))
   \<and> fst (captureScreenshot (Some (Inr ''next''))
         (snd (captureScreenshot
         (fst (full_page_body
            \<lparr>quality = binary64 (8 / 10), format = ''png'', captureSpeed = ''medium'',
             hideScrollbar = True, waitForImages = True\<rparr>
            (Metrics \<lparr>scrollWidth = 1000, scrollHeight = 800,
                      viewportWidth = 1000, viewportHeight = 800\<rparr>)
            [Rejected ''boom''])) \<lparr>isCapturing = False\<rparr>))) = Some (Inr ''next'')"
proof -
  have b: "fst (full_page_body
            \<lparr>quality = binary64 (8 / 10), format = ''png'', captureSpeed = ''medium'',
             hideScrollbar = True, waitForImages = True\<rparr>
            (Metrics \<lparr>scrollWidth = 1000, scrollHeight = 800,
                      viewportWidth = 1000, viewportHeight = 800\<rparr>)
            [Rejected ''boom'']) = Some (Inl (PrimitiveFailure ''boom''))"
    by code_simp
  show ?thesis
    using guard_released_on_exit
      [where s = "\<lparr>isCapturing = False\<rparr>"
         and body = "fst (full_page_body
            \<lparr>quality = binary64 (8 / 10), format = ''png'', captureSpeed = ''medium'',
             hideScrollbar = True, waitForImages = True\<rparr>
            (Metrics \<lparr>scrollWidth = 1000, scrollHeight = 800,
                      viewportWidth = 1000, viewportHeight = 800\<rparr>)
            [Rejected ''boom''])"
         and next_body = "Some (Inr ''next'')"] b
    by simp
qed

section \<open>The rate-limited capture\<close>

lemma backoff_trace_0: "backoff_trace opts mx rc 0 = []"
  by (simp add: backoff_trace_def)

lemma backoff_trace_Suc:
  "backoff_trace opts mx rc (Suc k) =
     [capture_request opts, Sleep (min (1000 * Suc rc) 3000),
      UpdateStatus (RateLimitedRetrying (Suc rc) mx) Info] @ backoff_trace opts mx (Suc rc) k"
proof -
  have "[Suc rc..<Suc (rc + Suc k)] = Suc rc # [Suc (Suc rc)..<Suc (Suc rc + k)]"
    by (simp add: upt_conv_Cons del: upt_Suc)
  then show ?thesis
    by (simp add: backoff_trace_def del: upt_Suc)
qed

lemma waits_append: "waits (xs @ ys) = waits xs @ waits ys"
  by (induction xs rule: waits.induct) simp_all

lemma waits_backoff_trace:
  "waits (backoff_trace opts mx rc k) = map (\<lambda>n. min (1000 * n) 3000) [Suc rc..<Suc (rc + k)]"
proof (induction k arbitrary: rc)
  case 0
  show ?case by (simp add: backoff_trace_0)
next
  case (Suc k)
  have "[Suc rc..<Suc (rc + Suc k)] = Suc rc # [Suc (Suc rc)..<Suc (Suc rc + k)]"
    by (simp add: upt_conv_Cons del: upt_Suc)
  with Suc [of "Suc rc"] show ?case
    by (simp add: backoff_trace_Suc capture_request_def del: upt_Suc)
qed

lemma filter_capture_backoff_trace:
  "filter is_capture (backoff_trace opts mx rc k) = replicate k (capture_request opts)"
proof (induction k arbitrary: rc)
  case 0
  show ?case by (simp add: backoff_trace_0)
next
  case (Suc k)
  then show ?case by (simp add: backoff_trace_Suc capture_request_def)
qed

text \<open>The loop over a run of rate-limited rejections, whatever comes after them.\<close>

lemma retry_loop_rate_limited_prefix:
  assumes "\<forall>m \<in> set msgs. rate_limited m" and "rc + length msgs \<le> mx"
  shows "retry_loop opts mx rc (map Rejected msgs @ rest)
           = apfst (emit (backoff_trace opts mx rc (length msgs)))
               (retry_loop opts mx (rc + length msgs) rest)"
  using assms
proof (induction msgs arbitrary: rc)
  case Nil
  show ?case by (simp add: backoff_trace_0 emit_def apfst_def map_prod_def split: prod.splits)
next
  case (Cons m msgs)
  from Cons.prems have lt: "rc < mx" and rl: "js_includes m rate_limit_marker"
    and rest: "\<forall>m \<in> set msgs. rate_limited m" "Suc rc + length msgs \<le> mx"
    by (simp_all add: rate_limited_def)
  have "retry_loop opts mx rc (map Rejected (m # msgs) @ rest)
          = apfst (emit [capture_request opts, Sleep (min (1000 * Suc rc) 3000),
                         UpdateStatus (RateLimitedRetrying (Suc rc) mx) Info])
              (retry_loop opts mx (Suc rc) (map Rejected msgs @ rest))"
    using lt rl by simp
  also have "retry_loop opts mx (Suc rc) (map Rejected msgs @ rest)
          = apfst (emit (backoff_trace opts mx (Suc rc) (length msgs)))
               (retry_loop opts mx (Suc rc + length msgs) rest)"
    by (rule Cons.IH [OF rest])
  finally show ?case
    by (simp add: backoff_trace_Suc emit_def apfst_def map_prod_def split: prod.splits)
qed

lemma retry_then_success:
  assumes "\<forall>m \<in> set msgs. rate_limited m" and "length msgs < mx" and "s \<noteq> []"
  shows "captureScreenshotWithRetry opts mx (map Rejected msgs @ Resolved s # rest)
           = ((Some (Inr s), backoff_trace opts mx 0 (length msgs) @ [capture_request opts]), rest)"
proof -
  have "retry_loop opts mx (length msgs) (Resolved s # rest)
          = ((Some (Inr s), [capture_request opts]), rest)"
    using assms by simp
  with retry_loop_rate_limited_prefix [of msgs 0 mx opts "Resolved s # rest"] assms
  show ?thesis
    by (simp add: captureScreenshotWithRetry_def emit_def)
qed

lemma retry_then_failure:
  assumes "\<forall>m \<in> set msgs. rate_limited m" and "length msgs < mx" and "\<not> rate_limited msg"
  shows "captureScreenshotWithRetry opts mx (map Rejected msgs @ Rejected msg # rest)
           = ((Some (Inl (PrimitiveFailure msg)),
               backoff_trace opts mx 0 (length msgs) @ [capture_request opts]), rest)"
proof -
  have "retry_loop opts mx (length msgs) (Rejected msg # rest)
          = ((Some (Inl (PrimitiveFailure msg)), [capture_request opts]), rest)"
    using assms by (simp add: rate_limited_def)
  with retry_loop_rate_limited_prefix [of msgs 0 mx opts "Rejected msg # rest"] assms
  show ?thesis
    by (simp add: captureScreenshotWithRetry_def emit_def)
qed

lemma retry_exhausted:
  assumes "\<forall>m \<in> set msgs. rate_limited m" and "length msgs = mx"
  shows "captureScreenshotWithRetry opts mx (map Rejected msgs @ rest)
           = ((Some (Inl RetriesExhausted), backoff_trace opts mx 0 mx), rest)"
proof -
  have "retry_loop opts mx mx rest = ((Some (Inl RetriesExhausted), []), rest)"
    by (cases rest) simp_all
  with retry_loop_rate_limited_prefix [of msgs 0 mx opts rest] assms
  show ?thesis
    by (simp add: captureScreenshotWithRetry_def emit_def)
qed

text \<open>
  Claim C4. When the primitive rejects with the rate-limit message on its first attempts
  (fewer than \<open>maxRetries\<close> of them) and then resolves with an image, the capturer
  returns that image, and the waits it made are \<open>min(1000 * n, 3000)\<close> ms after the
  \<open>n\<close>-th rejection, in order: for two rejections, 1000 ms and then 2000 ms.
\<close>

theorem backoff_waits:
  "(\<forall>m \<in> set msgs. rate_limited m) \<and> length msgs < maxRetries \<and> s \<noteq> [] \<longrightarrow>
     fst (fst (captureScreenshotWithRetry opts maxRetries (map Rejected msgs @ Resolved s # rest)))
       = Some (Inr s)
     \<and> waits (snd (fst (captureScreenshotWithRetry opts maxRetries
                          (map Rejected msgs @ Resolved s # rest))))
       = map (\<lambda>n. min (1000 * n) 3000) [1..<Suc (length msgs)]
     \<and> snd (captureScreenshotWithRetry opts maxRetries (map Rejected msgs @ Resolved s # rest))
       = rest"
  by (simp add: retry_then_success waits_append waits_backoff_trace capture_request_def
           del: upt_Suc)

lemma rate_limited_marker: "rate_limited ''MAX_CAPTURE_VISIBLE_TAB_CALLS_PER_SECOND''"
  by (simp add: rate_limited_def rate_limit_marker_def)

lemma rate_limited_chrome_message:
  "rate_limited ''This request exceeds the MAX_CAPTURE_VISIBLE_TAB_CALLS_PER_SECOND quota.''"
  by (simp add: rate_limited_def rate_limit_marker_def)

theorem backoff_waits_witness:
  "rate_limited ''This request exceeds the MAX_CAPTURE_VISIBLE_TAB_CALLS_PER_SECOND quota.''
   \<and> fst (fst (captureScreenshotWithRetry
        \<lparr>quality = binary64 (8 / 10), format = ''jpeg'', captureSpeed = ''medium'',
         hideScrollbar = True, waitForImages = True\<rparr> 3
        [Rejected ''This request exceeds the MAX_CAPTURE_VISIBLE_TAB_CALLS_PER_SECOND quota.'',
         Rejected ''This request exceeds the MAX_CAPTURE_VISIBLE_TAB_CALLS_PER_SECOND quota.'',
         Resolved ''data:image/png;base64,AA'']))
       = Some (Inr ''data:image/png;base64,AA'')
   \<and> waits (snd (fst (captureScreenshotWithRetry
        \<lparr>quality = binary64 (8 / 10), format = ''jpeg'', captureSpeed = ''medium'',
         hideScrollbar = True, waitForImages = True\<rparr> 3
        [Rejected ''This request exceeds the MAX_CAPTURE_VISIBLE_TAB_CALLS_PER_SECOND quota.'',
         Rejected ''This request exceeds the MAX_CAPTURE_VISIBLE_TAB_CALLS_PER_SECOND quota.'',
         Resolved ''data:image/png;base64,AA''])))
       = [1000, 2000]"
  using backoff_waits
    [where msgs = "[''This request exceeds the MAX_CAPTURE_VISIBLE_TAB_CALLS_PER_SECOND quota.'',
                    ''This request exceeds the MAX_CAPTURE_VISIBLE_TAB_CALLS_PER_SECOND quota.'']"
       and maxRetries = 3 and s = "''data:image/png;base64,AA''" and rest = "[]"
       and opts = "\<lparr>quality = binary64 (8 / 10), format = ''jpeg'', captureSpeed = ''medium'',
         hideScrollbar = True, waitForImages = True\<rparr>"]
    rate_limited_chrome_message
  by (simp add: upt_rec)

text \<open>
  Claim C9. A rejection whose message is not the rate-limit one is thrown on to the
  caller as it is: the failing call is the last effect and nothing more of the primitive
  is consumed. When \<open>maxRetries\<close> attempts (3 by default) are all rate-limited, that
  many calls were made and the capturer throws "Failed to capture screenshot after
  multiple retries".
\<close>

theorem failures_propagate_or_exhaust:
  "((\<forall>m \<in> set msgs. rate_limited m) \<and> length msgs < maxRetries \<and> \<not> rate_limited msg \<longrightarrow>
      fst (fst (captureScreenshotWithRetry opts maxRetries
                  (map Rejected msgs @ Rejected msg # rest)))
        = Some (Inl (PrimitiveFailure msg))
      \<and> snd (captureScreenshotWithRetry opts maxRetries
                (map Rejected msgs @ Rejected msg # rest)) = rest
      \<and> length (filter is_capture (snd (fst (captureScreenshotWithRetry opts maxRetries
                  (map Rejected msgs @ Rejected msg # rest))))) = Suc (length msgs)
      \<and> last (snd (fst (captureScreenshotWithRetry opts maxRetries
                  (map Rejected msgs @ Rejected msg # rest)))) = capture_request opts)
   \<and> ((\<forall>m \<in> set msgs. rate_limited m) \<and> length msgs = maxRetries \<longrightarrow>
      fst (fst (captureScreenshotWithRetry opts maxRetries (map Rejected msgs @ rest)))
        = Some (Inl RetriesExhausted)
      \<and> snd (captureScreenshotWithRetry opts maxRetries (map Rejected msgs @ rest)) = rest
      \<and> length (filter is_capture (snd (fst (captureScreenshotWithRetry opts maxRetries
                  (map Rejected msgs @ rest))))) = maxRetries)
   \<and> default_maxRetries = 3"
  by (simp add: retry_then_failure retry_exhausted filter_capture_backoff_trace
        capture_request_def default_maxRetries_def)

lemma not_rate_limited_boom: "\<not> rate_limited ''Tabs cannot be edited right now''"
  by (simp add: rate_limited_def rate_limit_marker_def)

theorem failures_propagate_or_exhaust_witness:
  "\<not> rate_limited ''Tabs cannot be edited right now''
   \<and> rate_limited ''MAX_CAPTURE_VISIBLE_TAB_CALLS_PER_SECOND''
   \<and> captureScreenshotWithRetry
        \<lparr>quality = binary64 (8 / 10), format = ''png'', captureSpeed = ''medium'',
         hideScrollbar = True, waitForImages = True\<rparr> 3
        [Rejected ''MAX_CAPTURE_VISIBLE_TAB_CALLS_PER_SECOND'',
         Rejected ''Tabs cannot be edited right now'',
         Resolved ''data:image/png;base64,AA'']
       = ((Some (Inl (PrimitiveFailure ''Tabs cannot be edited right now'')),
           [CaptureVisibleTab ''png'' 80, Sleep 1000,
            UpdateStatus (RateLimitedRetrying 1 3) Info, CaptureVisibleTab ''png'' 80]),
          [Resolved ''data:image/png;base64,AA''])
   \<and> fst (fst (captureScreenshotWithRetry
        \<lparr>quality = binary64 (8 / 10), format = ''png'', captureSpeed = ''medium'',
         hideScrollbar = True, waitForImages = True\<rparr> 3
        [Rejected ''MAX_CAPTURE_VISIBLE_TAB_CALLS_PER_SECOND'',
         Rejected ''MAX_CAPTURE_VISIBLE_TAB_CALLS_PER_SECOND'',
         Rejected ''MAX_CAPTURE_VISIBLE_TAB_CALLS_PER_SECOND'',
         Resolved ''data:image/png;base64,AA'']))
       = Some (Inl RetriesExhausted)"
proof -
  have run: "captureScreenshotWithRetry
        \<lparr>quality = binary64 (8 / 10), format = ''png'', captureSpeed = ''medium'',
         hideScrollbar = True, waitForImages = True\<rparr> 3
        [Rejected ''MAX_CAPTURE_VISIBLE_TAB_CALLS_PER_SECOND'',
         Rejected ''Tabs cannot be edited right now'',
         Resolved ''data:image/png;base64,AA'']
       = ((Some (Inl (PrimitiveFailure ''Tabs cannot be edited right now'')),
           [CaptureVisibleTab ''png'' 80, Sleep 1000,
            UpdateStatus (RateLimitedRetrying 1 3) Info, CaptureVisibleTab ''png'' 80]),
          [Resolved ''data:image/png;base64,AA''])"
    by code_simp
  show ?thesis
    using failures_propagate_or_exhaust
      [where msgs = "[''MAX_CAPTURE_VISIBLE_TAB_CALLS_PER_SECOND'',
                      ''MAX_CAPTURE_VISIBLE_TAB_CALLS_PER_SECOND'',
                      ''MAX_CAPTURE_VISIBLE_TAB_CALLS_PER_SECOND'']"
         and maxRetries = 3 and rest = "[Resolved ''data:image/png;base64,AA'']"
         and opts = "\<lparr>quality = binary64 (8 / 10), format = ''png'', captureSpeed = ''medium'',
                       hideScrollbar = True, waitForImages = True\<rparr>"]
      failures_propagate_or_exhaust
      [where msgs = "[''MAX_CAPTURE_VISIBLE_TAB_CALLS_PER_SECOND'']"
         and msg = "''Tabs cannot be edited right now''"
         and maxRetries = 3 and rest = "[Resolved ''data:image/png;base64,AA'']"
         and opts = "\<lparr>quality = binary64 (8 / 10), format = ''png'', captureSpeed = ''medium'',
                       hideScrollbar = True, waitForImages = True\<rparr>"]
      run rate_limited_marker not_rate_limited_boom
    by simp
qed

section \<open>What is asked of the capture primitive\<close>

lemma only_png_append: "only_png opts (xs @ ys) \<longleftrightarrow> only_png opts xs \<and> only_png opts ys"
  by (auto simp: only_png_def)

lemma only_png_capture_request: "only_png opts [capture_request opts]"
  by (simp add: only_png_def capture_request_def)

lemma only_png_Nil: "only_png opts []"
  by (simp add: only_png_def)

lemma snd_fst_apfst_emit: "snd (fst (apfst (emit es) r)) = es @ snd (fst r)"
  by (cases r) (simp add: emit_def)

lemma only_png_emit: "only_png opts (snd (emit es r)) \<longleftrightarrow> only_png opts es \<and> only_png opts (snd r)"
  by (simp add: emit_def only_png_append)

lemma only_png_retry_loop: "only_png opts (snd (fst (retry_loop opts mx rc script)))"
proof (induction script arbitrary: rc)
  case Nil
  show ?case by (simp add: only_png_def capture_request_def)
next
  case (Cons r script)
  show ?case
  proof (cases r)
    case (Resolved s)
    with Cons [of rc] show ?thesis
      by (simp add: only_png_emit only_png_capture_request only_png_Nil)
  next
    case (Rejected msg)
    have "only_png opts [capture_request opts, Sleep w, UpdateStatus m Info]" for w m
      by (simp add: only_png_def capture_request_def)
    with Rejected Cons [of "Suc rc"] show ?thesis
      by (simp add: only_png_emit only_png_capture_request only_png_Nil)
  qed
qed

lemma only_png_capture_cell: "only_png opts (snd (capture_cell opts totalSegments c st))"
proof -
  obtain images segmentIndex script where st: "st = (images, segmentIndex, script)"
    by (cases st)
  obtain r tr script' where
    cr: "captureScreenshotWithRetry opts default_maxRetries script = ((r, tr), script')"
    by (metis surj_pair)
  have tr: "only_png opts tr"
    using only_png_retry_loop [of opts default_maxRetries 0 script] cr
    by (simp add: captureScreenshotWithRetry_def)
  have nc: "only_png opts [ScrollTo a b, Sleep 500, Sleep 200]" for a b
    by (simp add: only_png_def)
  show ?thesis
    using tr nc
    by (simp add: capture_cell_def st cr only_png_emit only_png_append
             split: option.splits sum.splits)
       (simp add: only_png_def)
qed

lemma only_png_capture_cells: "only_png opts (snd (capture_cells opts totalSegments cells st))"
proof (induction cells arbitrary: st)
  case Nil
  show ?case by (simp add: only_png_def)
next
  case (Cons c cells)
  obtain r tr where cc: "capture_cell opts totalSegments c st = (r, tr)"
    by (cases "capture_cell opts totalSegments c st")
  have tr: "only_png opts tr"
    using only_png_capture_cell [of opts totalSegments c st] cc by simp
  show ?case
    using tr Cons.IH
    by (simp add: cc only_png_emit split: option.splits sum.splits)
qed

lemma only_png_capture_unbounded:
  "only_png opts (snd (capture_unbounded passes opts pm k st))"
proof (induction passes arbitrary: k st)
  case 0
  show ?case by (simp add: only_png_def)
next
  case (Suc passes)
  show ?case
  proof (cases "endless_cell pm k")
    case None
    then show ?thesis by (simp add: only_png_def)
  next
    case (Some c)
    obtain r tr where cc: "capture_cell opts Infinite c st = (r, tr)"
      by (cases "capture_cell opts Infinite c st")
    have tr: "only_png opts tr"
      using only_png_capture_cell [of opts Infinite c st] cc by simp
    show ?thesis
      using tr Suc.IH
      by (simp add: Some cc only_png_emit split: option.splits sum.splits)
  qed
qed

lemma only_png_validate_images: "only_png opts (snd (validate_images images sx sy))"
  by (simp add: validate_images_def only_png_def split: sum.splits)

lemma only_png_finish_capture:
  assumes "only_png opts (snd r)"
  shows "only_png opts (snd (finish_capture sx sy r))"
  using assms only_png_validate_images
  by (auto simp: finish_capture_def only_png_emit split: prod.splits option.splits sum.splits)

lemma only_png_captureFullPage: "only_png opts (snd (captureFullPage opts info script))"
proof (cases info)
  case ScriptFailed
  then show ?thesis by (simp add: captureFullPage_def only_png_def)
next
  case NoResult
  then show ?thesis by (simp add: captureFullPage_def only_png_def)
next
  case (Metrics pm)
  have "only_png opts (snd (case plan_grid pm of
                   Grid cells \<Rightarrow> capture_cells opts t cells ([], 0, script)
                 | NoCells \<Rightarrow> (Some (Inr ([], 0, script)), [])
                 | Endless \<Rightarrow>
                     capture_unbounded (Suc (length script)) opts pm 0 ([], 0, script)))" for t
  proof (cases "plan_grid pm")
    case (Grid cells)
    then show ?thesis by (simp add: only_png_capture_cells)
  next
    case NoCells
    then show ?thesis by (simp add: only_png_def)
  next
    case Endless
    then show ?thesis
      by (simp add: only_png_capture_unbounded del: capture_unbounded.simps)
  qed
  then show ?thesis
    using Metrics
    by (simp add: captureFullPage_def Let_def only_png_finish_capture)
qed

lemma only_png_full_page_body: "only_png opts (snd (full_page_body opts info script))"
proof -
  obtain r tr where c: "captureFullPage opts info script = (r, tr)"
    by (cases "captureFullPage opts info script")
  with only_png_captureFullPage [of opts info script] have "only_png opts tr" by simp
  with c show ?thesis
    by (simp add: full_page_body_def split: option.splits sum.splits)
qed

lemma only_png_captureVisibleArea: "only_png opts (snd (captureVisibleArea opts script))"
  using only_png_retry_loop [of opts default_maxRetries 0 script]
  by (simp add: captureVisibleArea_def captureScreenshotWithRetry_def)

text \<open>The requested output format has no part in the capture.\<close>

lemma capture_request_format: "capture_request (opts\<lparr>format := fmt\<rparr>) = capture_request opts"
  by (simp add: capture_request_def)

lemma retry_loop_format:
  "retry_loop (opts\<lparr>format := fmt\<rparr>) mx rc script = retry_loop opts mx rc script"
proof (induction script arbitrary: rc)
  case Nil
  show ?case by (simp add: capture_request_format)
next
  case (Cons r script)
  show ?case
    by (cases r) (simp_all add: capture_request_format Cons)
qed

lemma rate_limit_delay_format:
  "rate_limit_delay (opts\<lparr>format := fmt\<rparr>) = rate_limit_delay opts"
  by (simp add: rate_limit_delay_def)

lemma capture_cell_format:
  "capture_cell (opts\<lparr>format := fmt\<rparr>) t c st = capture_cell opts t c st"
  unfolding capture_cell_def captureScreenshotWithRetry_def retry_loop_format
    rate_limit_delay_format
  by (rule refl)

lemma capture_cells_format:
  "capture_cells (opts\<lparr>format := fmt\<rparr>) t cells st = capture_cells opts t cells st"
  by (induction cells arbitrary: st)
     (simp_all add: capture_cell_format split: prod.splits option.splits sum.splits)

lemma capture_unbounded_format:
  "capture_unbounded n (opts\<lparr>format := fmt\<rparr>) pm k st = capture_unbounded n opts pm k st"
  by (induction n arbitrary: k st)
     (simp_all add: capture_cell_format split: prod.splits option.splits sum.splits)

lemma captureFullPage_format:
  "captureFullPage (opts\<lparr>format := fmt\<rparr>) info script = captureFullPage opts info script"
  unfolding captureFullPage_def capture_cells_format capture_unbounded_format
  by (rule refl)

lemma captureVisibleArea_format:
  "captureVisibleArea (opts\<lparr>format := fmt\<rparr>) script = captureVisibleArea opts script"
  by (simp add: captureVisibleArea_def captureScreenshotWithRetry_def retry_loop_format)

lemma combine_layout_mime:
  assumes "combine_layout images m = Inr c"
  shows "mime c = m"
  using assms
  by (auto simp: combine_layout_def Let_def split: list.splits option.splits if_splits)

text \<open>
  Claim C10. In a full-page run and in a visible-area run alike, every call of the
  capture primitive asks for format \<open>png\<close> at quality \<open>Math.round(quality * 100)\<close>,
  the product being the binary64 one: for the quality \<open>0.8\<close> it is 80, for
  \<open>0.015\<close> it is 2 (the product rounds up to 1.5) and for \<open>0.145\<close> it is 14 (the
  product lies below 14.5). Changing \<open>options.format\<close> changes nothing in the
  capture. The requested format enters when \<open>combineImages\<close> encodes the canvas,
  as the type \<open>image/<format>\<close>.
\<close>

theorem capture_always_png:
  "only_png opts (snd (full_page_body opts info script))
   \<and> only_png opts (snd (captureVisibleArea opts script))
   \<and> captureFullPage (opts\<lparr>format := fmt\<rparr>) info script = captureFullPage opts info script
   \<and> captureVisibleArea (opts\<lparr>format := fmt\<rparr>) script = captureVisibleArea opts script
   \<and> (combineImages images opts = Inr c \<longrightarrow> mime c = ''image/'' @ format opts)
   \<and> capture_request (opts\<lparr>quality := binary64 (8 / 10)\<rparr>) = CaptureVisibleTab ''png'' 80
   \<and> capture_request (opts\<lparr>quality := binary64 (15 / 1000)\<rparr>) = CaptureVisibleTab ''png'' 2
   \<and> capture_request (opts\<lparr>quality := binary64 (145 / 1000)\<rparr>) = CaptureVisibleTab ''png'' 14"
proof -
  have "js_round (binary64 (binary64 (8 / 10) * 100)) = 80"
    by code_simp
  moreover have "js_round (binary64 (binary64 (15 / 1000) * 100)) = 2"
    by code_simp
  moreover have "js_round (binary64 (binary64 (145 / 1000) * 100)) = 14"
    by code_simp
  ultimately show ?thesis
    by (simp add: only_png_full_page_body only_png_captureVisibleArea captureFullPage_format
          captureVisibleArea_format combineImages_def combine_layout_mime capture_request_def)
qed

theorem capture_always_png_witness:
  "only_png
     \<lparr>quality = binary64 (6 / 10), format = ''jpeg'', captureSpeed = ''fast'',
      hideScrollbar = True, waitForImages = True\<rparr>
     [CaptureVisibleTab ''png'' 60, Sleep 1000, CaptureVisibleTab ''png'' 60]
   \<and> filter is_capture (snd (full_page_body
        \<lparr>quality = binary64 (6 / 10), format = ''jpeg'', captureSpeed = ''fast'',
         hideScrollbar = True, waitForImages = True\<rparr>
        (Metrics \<lparr>scrollWidth = 1000, scrollHeight = 800,
                  viewportWidth = 1000, viewportHeight = 800\<rparr>)
        [Rejected ''MAX_CAPTURE_VISIBLE_TAB_CALLS_PER_SECOND'',
         Resolved ''data:image/png;base64,AA'']))
       = [CaptureVisibleTab ''png'' 60, CaptureVisibleTab ''png'' 60]
   \<and> combineImages
        [\<lparr>tile_dataUrl = ''data:image/png;base64,AA'', tile_x = 0, tile_y = 0,
          tile_width = 1000, tile_height = 800\<rparr>]
        \<lparr>quality = binary64 (6 / 10), format = ''jpeg'', captureSpeed = ''fast'',
         hideScrollbar = True, waitForImages = True\<rparr>
       = Inr \<lparr>canvas_width = 1000, canvas_height = 800, scale_factor = 1,
              draws = [(0, 0, 1000, 800)], mime = ''image/jpeg''\<rparr>
   \<and> mime \<lparr>canvas_width = 1000, canvas_height = 800, scale_factor = 1,
              draws = [(0, 0, 1000, 800)], mime = ''image/jpeg''\<rparr> = ''image/jpeg''"
proof -
  have tr: "snd (full_page_body
        \<lparr>quality = binary64 (6 / 10), format = ''jpeg'', captureSpeed = ''fast'',
         hideScrollbar = True, waitForImages = True\<rparr>
        (Metrics \<lparr>scrollWidth = 1000, scrollHeight = 800,
                  viewportWidth = 1000, viewportHeight = 800\<rparr>)
        [Rejected ''MAX_CAPTURE_VISIBLE_TAB_CALLS_PER_SECOND'',
         Resolved ''data:image/png;base64,AA''])
     = [ScrollTo 0 0, Sleep 500, Sleep 200, CaptureVisibleTab ''png'' 60, Sleep 1000,
        UpdateStatus (RateLimitedRetrying 1 3) Info, CaptureVisibleTab ''png'' 60,
        UpdateProgress (Finite 100), UpdateStatus (CapturedSegment 1 (Finite 1)) Info]"
    by code_simp
  have comb: "combineImages
        [\<lparr>tile_dataUrl = ''data:image/png;base64,AA'', tile_x = 0, tile_y = 0,
          tile_width = 1000, tile_height = 800\<rparr>]
        \<lparr>quality = binary64 (6 / 10), format = ''jpeg'', captureSpeed = ''fast'',
         hideScrollbar = True, waitForImages = True\<rparr>
       = Inr \<lparr>canvas_width = 1000, canvas_height = 800, scale_factor = 1,
              draws = [(0, 0, 1000, 800)], mime = ''image/jpeg''\<rparr>"
    by code_simp
  show ?thesis
    using capture_always_png
      [where opts = "\<lparr>quality = binary64 (6 / 10), format = ''jpeg'', captureSpeed = ''fast'',
                       hideScrollbar = True, waitForImages = True\<rparr>"
         and info = "Metrics \<lparr>scrollWidth = 1000, scrollHeight = 800,
                               viewportWidth = 1000, viewportHeight = 800\<rparr>"
         and script = "[Rejected ''MAX_CAPTURE_VISIBLE_TAB_CALLS_PER_SECOND'',
                        Resolved ''data:image/png;base64,AA'']"
         and images = "[\<lparr>tile_dataUrl = ''data:image/png;base64,AA'', tile_x = 0,
                          tile_y = 0, tile_width = 1000, tile_height = 800\<rparr>]"
         and c = "\<lparr>canvas_width = 1000, canvas_height = 800, scale_factor = 1,
                    draws = [(0, 0, 1000, 800)], mime = ''image/jpeg''\<rparr>"]
      tr comb
    by (simp add: only_png_def)
qed

section \<open>The compositor's scaling\<close>

lemma canvas_scale_nonzero:
  assumes "tw \<noteq> 0" and "th \<noteq> 0"
  shows "canvas_scale tw th
         = min (min (binary64 (32767 / of_int tw)) (binary64 (32767 / of_int th))) 1"
  using assms by (simp add: canvas_scale_def MAX_CANVAS_SIZE_def min.commute min.left_commute)

lemma draw_rect_eq:
  "draw_rect scale =
     (\<lambda>t. (binary64 (binary64 (of_int (tile_x t) * of_int (tile_width t)) * scale),
           binary64 (binary64 (of_int (tile_y t) * of_int (tile_height t)) * scale),
           binary64 (of_int (tile_width t) * scale),
           binary64 (of_int (tile_height t) * scale)))"
  by (rule ext) (simp add: draw_rect_def)

lemma combine_layout_oversized:
  assumes valid: "first_invalid 0 (first # others) = None"
    and big: "32767 < totalWidth_of first (first # others)
              \<or> 32767 < totalHeight_of first (first # others)"
    and nz: "totalWidth_of first (first # others) \<noteq> 0"
            "totalHeight_of first (first # others) \<noteq> 0"
  shows "combine_layout (first # others) mimeType =
     (let tw = totalWidth_of first (first # others);
          th = totalHeight_of first (first # others);
          scale = min (min (binary64 (32767 / of_int tw)) (binary64 (32767 / of_int th))) 1
      in if scale < binary64 (1 / 10) then Inl (PageTooLarge tw th)
         else Inr \<lparr> canvas_width = \<lfloor>binary64 (of_int tw * scale)\<rfloor>,
                    canvas_height = \<lfloor>binary64 (of_int th * scale)\<rfloor>,
                    scale_factor = scale,
                    draws = map (draw_rect scale) (first # others),
                    mime = mimeType \<rparr>)"
proof -
  have sc: "canvas_scale (totalWidth_of first (first # others))
              (totalHeight_of first (first # others))
            = min (min (binary64 (32767 / of_int (totalWidth_of first (first # others))))
                       (binary64 (32767 / of_int (totalHeight_of first (first # others))))) 1"
    by (rule canvas_scale_nonzero [OF nz])
  from big have big': "MAX_CANVAS_SIZE < totalWidth_of first (first # others)
                    \<or> MAX_CANVAS_SIZE < totalHeight_of first (first # others)"
    by (simp add: MAX_CANVAS_SIZE_def)
  show ?thesis
    unfolding combine_layout_def list.case valid option.case Let_def if_P [OF big'] sc
    by (rule refl)
qed

lemma combine_layout_scaled:
  assumes valid: "first_invalid 0 (first # others) = None"
    and tw: "totalWidth_of first (first # others) = tw"
    and th: "totalHeight_of first (first # others) = th"
    and big: "32767 < tw \<or> 32767 < th"
    and nz: "tw \<noteq> 0" "th \<noteq> 0"
    and scale: "min (min (binary64 (32767 / of_int tw)) (binary64 (32767 / of_int th))) 1 = s"
    and keep: "\<not> s < binary64 (1 / 10)"
  shows "combine_layout (first # others) mimeType =
     Inr \<lparr> canvas_width = \<lfloor>binary64 (of_int tw * s)\<rfloor>,
           canvas_height = \<lfloor>binary64 (of_int th * s)\<rfloor>,
           scale_factor = s,
           draws = map (draw_rect s) (first # others),
           mime = mimeType \<rparr>"
proof -
  have "combine_layout (first # others) mimeType =
     (let tw = totalWidth_of first (first # others);
          th = totalHeight_of first (first # others);
          scale = min (min (binary64 (32767 / of_int tw)) (binary64 (32767 / of_int th))) 1
      in if scale < binary64 (1 / 10) then Inl (PageTooLarge tw th)
         else Inr \<lparr> canvas_width = \<lfloor>binary64 (of_int tw * scale)\<rfloor>,
                    canvas_height = \<lfloor>binary64 (of_int th * scale)\<rfloor>,
                    scale_factor = scale,
                    draws = map (draw_rect scale) (first # others),
                    mime = mimeType \<rparr>)"
    by (rule combine_layout_oversized [OF valid]) (simp_all add: tw th big nz)
  then show ?thesis
    unfolding Let_def tw th scale if_not_P [OF keep] .
qed

text \<open>
  Claim C5. When the total width or height of the composite is above 32767 (and neither
  is 0), the compositor takes \<open>scale = min(32767 / totalWidth, 32767 / totalHeight, 1)\<close>,
  throws "Page too large to process" when \<open>scale < 0.1\<close>, and otherwise sizes the
  canvas to the floor of the scaled totals and draws every tile at its position and size
  times \<open>scale\<close>, every quotient and product being the binary64 one. For a 3 by 3 grid
  of tiles of 20000 by 20000 the totals are 60000, the scale is the number nearest to
  32767/60000, within a thousandth of 0.546, and the canvas is 32767 by 32767. For a
  column of 42 tiles of 1280 by 805 the total height is 33810 and the canvas is 1240 by
  32766: the product of 33810 and the rounded scale lies just below 32767.
\<close>

theorem compositor_scales_down:
  "(images = first # others \<and> first_invalid 0 images = None
      \<and> (32767 < totalWidth_of first images \<or> 32767 < totalHeight_of first images)
      \<and> totalWidth_of first images \<noteq> 0 \<and> totalHeight_of first images \<noteq> 0
      \<and> scale = min (min (binary64 (32767 / of_int (totalWidth_of first images)))
                          (binary64 (32767 / of_int (totalHeight_of first images)))) 1
    \<longrightarrow> combine_layout images mimeType =
         (if scale < binary64 (1 / 10)
          then Inl (PageTooLarge (totalWidth_of first images) (totalHeight_of first images))
          else Inr \<lparr> canvas_width = \<lfloor>binary64 (of_int (totalWidth_of first images) * scale)\<rfloor>,
                     canvas_height = \<lfloor>binary64 (of_int (totalHeight_of first images) * scale)\<rfloor>,
                     scale_factor = scale,
                     draws = map (\<lambda>t.
                       (binary64 (binary64 (of_int (tile_x t) * of_int (tile_width t)) * scale),
                        binary64 (binary64 (of_int (tile_y t) * of_int (tile_height t)) * scale),
                        binary64 (of_int (tile_width t) * scale),
                        binary64 (of_int (tile_height t) * scale))) images,
                     mime = mimeType \<rparr>))
   \<and> (case combine_layout
             [\<lparr>tile_dataUrl = ''data:image/png;base64,AA'', tile_x = col, tile_y = row,
               tile_width = 20000, tile_height = 20000\<rparr>. row \<leftarrow> [0, 1, 2], col \<leftarrow> [0, 1, 2]]
             ''image/png'' of
         Inl e \<Rightarrow> False
       | Inr c \<Rightarrow> scale_factor c = binary64 (32767 / 60000)
                  \<and> \<bar>scale_factor c - 546 / 1000\<bar> < 1 / 1000
                  \<and> canvas_width c = 32767 \<and> canvas_height c = 32767)
   \<and> (case combine_layout
             [\<lparr>tile_dataUrl = ''data:image/png;base64,AA'', tile_x = 0, tile_y = row,
               tile_width = 1280, tile_height = 805\<rparr>. row \<leftarrow> map int [0..<42]]
             ''image/png'' of
         Inl e \<Rightarrow> False
       | Inr c \<Rightarrow> scale_factor c = binary64 (32767 / 33810)
                  \<and> canvas_width c = 1240 \<and> canvas_height c = 32766)"
proof (intro conjI impI)
  assume a: "images = first # others \<and> first_invalid 0 images = None
      \<and> (32767 < totalWidth_of first images \<or> 32767 < totalHeight_of first images)
      \<and> totalWidth_of first images \<noteq> 0 \<and> totalHeight_of first images \<noteq> 0
      \<and> scale = min (min (binary64 (32767 / of_int (totalWidth_of first images)))
                          (binary64 (32767 / of_int (totalHeight_of first images)))) 1"
  then have im: "images = first # others" by blast
  from a have valid: "first_invalid 0 (first # others) = None"
    and big: "32767 < totalWidth_of first (first # others)
              \<or> 32767 < totalHeight_of first (first # others)"
    and nz: "totalWidth_of first (first # others) \<noteq> 0"
            "totalHeight_of first (first # others) \<noteq> 0"
    and scale: "scale = min (min (binary64 (32767 / of_int (totalWidth_of first (first # others))))
                          (binary64 (32767 / of_int (totalHeight_of first (first # others))))) 1"
    unfolding im by blast+
  show "combine_layout images mimeType =
         (if scale < binary64 (1 / 10)
          then Inl (PageTooLarge (totalWidth_of first images) (totalHeight_of first images))
          else Inr \<lparr> canvas_width = \<lfloor>binary64 (of_int (totalWidth_of first images) * scale)\<rfloor>,
                     canvas_height = \<lfloor>binary64 (of_int (totalHeight_of first images) * scale)\<rfloor>,
                     scale_factor = scale,
                     draws = map (\<lambda>t.
                       (binary64 (binary64 (of_int (tile_x t) * of_int (tile_width t)) * scale),
                        binary64 (binary64 (of_int (tile_y t) * of_int (tile_height t)) * scale),
                        binary64 (of_int (tile_width t) * scale),
                        binary64 (of_int (tile_height t) * scale))) images,
                     mime = mimeType \<rparr>)"
    unfolding im combine_layout_oversized [OF valid big nz] Let_def scale [symmetric]
      draw_rect_eq [symmetric]
    by (rule refl)
next
  define g0 where "g0 = \<lparr>tile_dataUrl = ''data:image/png;base64,AA'', tile_x = 0, tile_y = 0,
                          tile_width = 20000, tile_height = 20000\<rparr>"
  define gs where "gs = [\<lparr>tile_dataUrl = ''data:image/png;base64,AA'', tile_x = col, tile_y = 0,
                           tile_width = 20000, tile_height = 20000\<rparr>. col \<leftarrow> [1, 2]]
        @ [\<lparr>tile_dataUrl = ''data:image/png;base64,AA'', tile_x = col, tile_y = row,
             tile_width = 20000, tile_height = 20000\<rparr>. row \<leftarrow> [1, 2], col \<leftarrow> [0, 1, 2]]"
  have grid: "[\<lparr>tile_dataUrl = ''data:image/png;base64,AA'', tile_x = col, tile_y = row,
               tile_width = 20000, tile_height = 20000\<rparr>. row \<leftarrow> [0, 1, 2], col \<leftarrow> [0, 1, 2]]
      = g0 # gs"
    by (simp add: g0_def gs_def)
  have valid: "first_invalid 0 (g0 # gs) = None"
    by (simp add: g0_def gs_def valid_data_def)
  have tw: "totalWidth_of g0 (g0 # gs) = 60000"
    by (simp add: g0_def gs_def totalWidth_of_def)
  have th: "totalHeight_of g0 (g0 # gs) = 60000"
    by (simp add: g0_def gs_def totalHeight_of_def)
  have s: "min (min (binary64 (32767 / of_int (60000 :: int)))
                    (binary64 (32767 / of_int (60000 :: int)))) 1 = binary64 (32767 / 60000)"
    by code_simp
  have keep: "\<not> binary64 (32767 / 60000) < binary64 (1 / 10)"
    by code_simp
  have fl: "\<lfloor>binary64 (of_int (60000 :: int) * binary64 (32767 / 60000))\<rfloor> = 32767"
    by code_simp
  have near: "\<bar>binary64 (32767 / 60000) - 546 / 1000\<bar> < 1 / 1000"
    by code_simp
  have "combine_layout (g0 # gs) ''image/png'' =
     Inr \<lparr> canvas_width = \<lfloor>binary64 (of_int (60000 :: int) * binary64 (32767 / 60000))\<rfloor>,
           canvas_height = \<lfloor>binary64 (of_int (60000 :: int) * binary64 (32767 / 60000))\<rfloor>,
           scale_factor = binary64 (32767 / 60000),
           draws = map (draw_rect (binary64 (32767 / 60000))) (g0 # gs),
           mime = ''image/png'' \<rparr>"
    by (rule combine_layout_scaled [OF valid tw th _ _ _ s keep]) simp_all
  then show "case combine_layout
             [\<lparr>tile_dataUrl = ''data:image/png;base64,AA'', tile_x = col, tile_y = row,
               tile_width = 20000, tile_height = 20000\<rparr>. row \<leftarrow> [0, 1, 2], col \<leftarrow> [0, 1, 2]]
             ''image/png'' of
         Inl e \<Rightarrow> False
       | Inr c \<Rightarrow> scale_factor c = binary64 (32767 / 60000)
                  \<and> \<bar>scale_factor c - 546 / 1000\<bar> < 1 / 1000
                  \<and> canvas_width c = 32767 \<and> canvas_height c = 32767"
    unfolding grid
    by (simp only: sum.case composite.select_convs fl near simp_thms)
next
  define c0 where "c0 = \<lparr>tile_dataUrl = ''data:image/png;base64,AA'', tile_x = 0, tile_y = 0,
                          tile_width = 1280, tile_height = 805\<rparr>"
  define cs where "cs = [\<lparr>tile_dataUrl = ''data:image/png;base64,AA'', tile_x = 0, tile_y = row,
                           tile_width = 1280, tile_height = 805\<rparr>. row \<leftarrow> map int [1..<42]]"
  have col: "[\<lparr>tile_dataUrl = ''data:image/png;base64,AA'', tile_x = 0, tile_y = row,
               tile_width = 1280, tile_height = 805\<rparr>. row \<leftarrow> map int [0..<42]]
      = c0 # cs"
    by (simp add: c0_def cs_def upt_conv_Cons del: upt_Suc)
  have valid_rows: "first_invalid i [\<lparr>tile_dataUrl = ''data:image/png;base64,AA'', tile_x = 0,
                 tile_y = row, tile_width = 1280, tile_height = 805\<rparr>. row \<leftarrow> rows] = None"
    for i and rows :: "int list"
    by (induction rows arbitrary: i) (simp_all add: valid_data_def)
  have valid: "first_invalid 0 (c0 # cs) = None"
    using valid_rows [of "Suc 0" "map int [1..<42]"]
    unfolding cs_def [symmetric]
    by (simp add: c0_def valid_data_def)
  have mx: "fold max (map tile_x [\<lparr>tile_dataUrl = ''data:image/png;base64,AA'', tile_x = 0,
                 tile_y = row, tile_width = 1280, tile_height = 805\<rparr>. row \<leftarrow> rows]) 0 = 0"
    for rows :: "int list"
    by (induction rows) simp_all
  have tw: "totalWidth_of c0 (c0 # cs) = 1280"
    using mx [of "map int [1..<42]"]
    unfolding cs_def [symmetric]
    by (simp add: c0_def totalWidth_of_def)
  have rows_y: "map tile_y [\<lparr>tile_dataUrl = ''data:image/png;base64,AA'', tile_x = 0,
                 tile_y = row, tile_width = 1280, tile_height = 805\<rparr>. row \<leftarrow> rows] = rows"
    for rows :: "int list"
    by (induction rows) simp_all
  have "fold max (map int [1..<42]) 0 = 41"
    by code_simp
  then have my: "fold max (map tile_y cs) 0 = 41"
    unfolding cs_def rows_y .
  have th: "totalHeight_of c0 (c0 # cs) = 33810"
    using my by (simp add: c0_def totalHeight_of_def)
  have s: "min (min (binary64 (32767 / of_int (1280 :: int)))
                    (binary64 (32767 / of_int (33810 :: int)))) 1 = binary64 (32767 / 33810)"
    by code_simp
  have keep: "\<not> binary64 (32767 / 33810) < binary64 (1 / 10)"
    by code_simp
  have flw: "\<lfloor>binary64 (of_int (1280 :: int) * binary64 (32767 / 33810))\<rfloor> = 1240"
    by code_simp
  have flh: "\<lfloor>binary64 (of_int (33810 :: int) * binary64 (32767 / 33810))\<rfloor> = 32766"
    by code_simp
  have "combine_layout (c0 # cs) ''image/png'' =
     Inr \<lparr> canvas_width = \<lfloor>binary64 (of_int (1280 :: int) * binary64 (32767 / 33810))\<rfloor>,
           canvas_height = \<lfloor>binary64 (of_int (33810 :: int) * binary64 (32767 / 33810))\<rfloor>,
           scale_factor = binary64 (32767 / 33810),
           draws = map (draw_rect (binary64 (32767 / 33810))) (c0 # cs),
           mime = ''image/png'' \<rparr>"
    by (rule combine_layout_scaled [OF valid tw th _ _ _ s keep]) simp_all
  then show "case combine_layout
             [\<lparr>tile_dataUrl = ''data:image/png;base64,AA'', tile_x = 0, tile_y = row,
               tile_width = 1280, tile_height = 805\<rparr>. row \<leftarrow> map int [0..<42]]
             ''image/png'' of
         Inl e \<Rightarrow> False
       | Inr c \<Rightarrow> scale_factor c = binary64 (32767 / 33810)
                  \<and> canvas_width c = 1240 \<and> canvas_height c = 32766"
    unfolding col
    by (simp only: sum.case composite.select_convs flw flh simp_thms)
qed

theorem compositor_scales_down_witness:
  "first_invalid 0 
      [\<lparr>tile_dataUrl = ''data:image/png;base64,AA'', tile_x = 0, tile_y = 0, tile_width = 1000, tile_height = 100000\<rparr>,
       \<lparr>tile_dataUrl = ''data:image/png;base64,AA'', tile_x = 0, tile_y = 1, tile_width = 1000, tile_height = 100000\<rparr>,
       \<lparr>tile_dataUrl = ''data:image/png;base64,AA'', tile_x = 0, tile_y = 2, tile_width = 1000, tile_height = 100000\<rparr>,
       \<lparr>tile_dataUrl = ''data:image/png;base64,AA'', tile_x = 0, tile_y = 3, tile_width = 1000, tile_height = 100000\<rparr>] = None
   \<and> totalWidth_of 
      \<lparr>tile_dataUrl = ''data:image/png;base64,AA'', tile_x = 0, tile_y = 0, tile_width = 1000, tile_height = 100000\<rparr> 
      [\<lparr>tile_dataUrl = ''data:image/png;base64,AA'', tile_x = 0, tile_y = 0, tile_width = 1000, tile_height = 100000\<rparr>,
       \<lparr>tile_dataUrl = ''data:image/png;base64,AA'', tile_x = 0, tile_y = 1, tile_width = 1000, tile_height = 100000\<rparr>,
       \<lparr>tile_dataUrl = ''data:image/png;base64,AA'', tile_x = 0, tile_y = 2, tile_width = 1000, tile_height = 100000\<rparr>,
       \<lparr>tile_dataUrl = ''data:image/png;base64,AA'', tile_x = 0, tile_y = 3, tile_width = 1000, tile_height = 100000\<rparr>] = 1000
   \<and> totalHeight_of 
      \<lparr>tile_dataUrl = ''data:image/png;base64,AA'', tile_x = 0, tile_y = 0, tile_width = 1000, tile_height = 100000\<rparr> 
      [\<lparr>tile_dataUrl = ''data:image/png;base64,AA'', tile_x = 0, tile_y = 0, tile_width = 1000, tile_height = 100000\<rparr>,
       \<lparr>tile_dataUrl = ''data:image/png;base64,AA'', tile_x = 0, tile_y = 1, tile_width = 1000, tile_height = 100000\<rparr>,
       \<lparr>tile_dataUrl = ''data:image/png;base64,AA'', tile_x = 0, tile_y = 2, tile_width = 1000, tile_height = 100000\<rparr>,
       \<lparr>tile_dataUrl = ''data:image/png;base64,AA'', tile_x = 0, tile_y = 3, tile_width = 1000, tile_height = 100000\<rparr>] = 400000
   \<and> min (min (binary64 (32767 / of_int (totalWidth_of 
      \<lparr>tile_dataUrl = ''data:image/png;base64,AA'', tile_x = 0, tile_y = 0, tile_width = 1000, tile_height = 100000\<rparr> 
      [\<lparr>tile_dataUrl = ''data:image/png;base64,AA'', tile_x = 0, tile_y = 0, tile_width = 1000, tile_height = 100000\<rparr>,
       \<lparr>tile_dataUrl = ''data:image/png;base64,AA'', tile_x = 0, tile_y = 1, tile_width = 1000, tile_height = 100000\<rparr>,
       \<lparr>tile_dataUrl = ''data:image/png;base64,AA'', tile_x = 0, tile_y = 2, tile_width = 1000, tile_height = 100000\<rparr>,
       \<lparr>tile_dataUrl = ''data:image/png;base64,AA'', tile_x = 0, tile_y = 3, tile_width = 1000, tile_height = 100000\<rparr>])))
               (binary64 (32767 / of_int (totalHeight_of 
      \<lparr>tile_dataUrl = ''data:image/png;base64,AA'', tile_x = 0, tile_y = 0, tile_width = 1000, tile_height = 100000\<rparr> 
      [\<lparr>tile_dataUrl = ''data:image/png;base64,AA'', tile_x = 0, tile_y = 0, tile_width = 1000, tile_height = 100000\<rparr>,
       \<lparr>tile_dataUrl = ''data:image/png;base64,AA'', tile_x = 0, tile_y = 1, tile_width = 1000, tile_height = 100000\<rparr>,
       \<lparr>tile_dataUrl = ''data:image/png;base64,AA'', tile_x = 0, tile_y = 2, tile_width = 1000, tile_height = 100000\<rparr>,
       \<lparr>tile_dataUrl = ''data:image/png;base64,AA'', tile_x = 0, tile_y = 3, tile_width = 1000, tile_height = 100000\<rparr>])))) 1
       = binary64 (32767 / 400000)
   \<and> binary64 (32767 / 400000) < binary64 (1 / 10)
   \<and> combine_layout 
      [\<lparr>tile_dataUrl = ''data:image/png;base64,AA'', tile_x = 0, tile_y = 0, tile_width = 1000, tile_height = 100000\<rparr>,
       \<lparr>tile_dataUrl = ''data:image/png;base64,AA'', tile_x = 0, tile_y = 1, tile_width = 1000, tile_height = 100000\<rparr>,
       \<lparr>tile_dataUrl = ''data:image/png;base64,AA'', tile_x = 0, tile_y = 2, tile_width = 1000, tile_height = 100000\<rparr>,
       \<lparr>tile_dataUrl = ''data:image/png;base64,AA'', tile_x = 0, tile_y = 3, tile_width = 1000, tile_height = 100000\<rparr>] ''image/png'' = Inl (PageTooLarge 1000 400000)"
proof -
  have v: "first_invalid 0 
      [\<lparr>tile_dataUrl = ''data:image/png;base64,AA'', tile_x = 0, tile_y = 0, tile_width = 1000, tile_height = 100000\<rparr>,
       \<lparr>tile_dataUrl = ''data:image/png;base64,AA'', tile_x = 0, tile_y = 1, tile_width = 1000, tile_height = 100000\<rparr>,
       \<lparr>tile_dataUrl = ''data:image/png;base64,AA'', tile_x = 0, tile_y = 2, tile_width = 1000, tile_height = 100000\<rparr>,
       \<lparr>tile_dataUrl = ''data:image/png;base64,AA'', tile_x = 0, tile_y = 3, tile_width = 1000, tile_height = 100000\<rparr>] = None"
    by (simp add: valid_data_def)
  have w: "totalWidth_of 
      \<lparr>tile_dataUrl = ''data:image/png;base64,AA'', tile_x = 0, tile_y = 0, tile_width = 1000, tile_height = 100000\<rparr> 
      [\<lparr>tile_dataUrl = ''data:image/png;base64,AA'', tile_x = 0, tile_y = 0, tile_width = 1000, tile_height = 100000\<rparr>,
       \<lparr>tile_dataUrl = ''data:image/png;base64,AA'', tile_x = 0, tile_y = 1, tile_width = 1000, tile_height = 100000\<rparr>,
       \<lparr>tile_dataUrl = ''data:image/png;base64,AA'', tile_x = 0, tile_y = 2, tile_width = 1000, tile_height = 100000\<rparr>,
       \<lparr>tile_dataUrl = ''data:image/png;base64,AA'', tile_x = 0, tile_y = 3, tile_width = 1000, tile_height = 100000\<rparr>] = 1000"
    by (simp add: totalWidth_of_def)
  have h: "totalHeight_of 
      \<lparr>tile_dataUrl = ''data:image/png;base64,AA'', tile_x = 0, tile_y = 0, tile_width = 1000, tile_height = 100000\<rparr> 
      [\<lparr>tile_dataUrl = ''data:image/png;base64,AA'', tile_x = 0, tile_y = 0, tile_width = 1000, tile_height = 100000\<rparr>,
       \<lparr>tile_dataUrl = ''data:image/png;base64,AA'', tile_x = 0, tile_y = 1, tile_width = 1000, tile_height = 100000\<rparr>,
       \<lparr>tile_dataUrl = ''data:image/png;base64,AA'', tile_x = 0, tile_y = 2, tile_width = 1000, tile_height = 100000\<rparr>,
       \<lparr>tile_dataUrl = ''data:image/png;base64,AA'', tile_x = 0, tile_y = 3, tile_width = 1000, tile_height = 100000\<rparr>] = 400000"
    by (simp add: totalHeight_of_def)
  have m: "min (min (binary64 (32767 / 1000)) (binary64 (32767 / 400000))) 1
           = binary64 (32767 / 400000)"
    by code_simp
  have l: "binary64 (32767 / 400000) < binary64 (1 / 10)"
    by code_simp
  show ?thesis
    using compositor_scales_down
      [where images = "
      [\<lparr>tile_dataUrl = ''data:image/png;base64,AA'', tile_x = 0, tile_y = 0, tile_width = 1000, tile_height = 100000\<rparr>,
       \<lparr>tile_dataUrl = ''data:image/png;base64,AA'', tile_x = 0, tile_y = 1, tile_width = 1000, tile_height = 100000\<rparr>,
       \<lparr>tile_dataUrl = ''data:image/png;base64,AA'', tile_x = 0, tile_y = 2, tile_width = 1000, tile_height = 100000\<rparr>,
       \<lparr>tile_dataUrl = ''data:image/png;base64,AA'', tile_x = 0, tile_y = 3, tile_width = 1000, tile_height = 100000\<rparr>]" and first = "
      \<lparr>tile_dataUrl = ''data:image/png;base64,AA'', tile_x = 0, tile_y = 0, tile_width = 1000, tile_height = 100000\<rparr>" and others = "
      [\<lparr>tile_dataUrl = ''data:image/png;base64,AA'', tile_x = 0, tile_y = 1, tile_width = 1000, tile_height = 100000\<rparr>,
       \<lparr>tile_dataUrl = ''data:image/png;base64,AA'', tile_x = 0, tile_y = 2, tile_width = 1000, tile_height = 100000\<rparr>,
       \<lparr>tile_dataUrl = ''data:image/png;base64,AA'', tile_x = 0, tile_y = 3, tile_width = 1000, tile_height = 100000\<rparr>]"
         and scale = "binary64 (32767 / 400000)" and mimeType = "''image/png''"]
      v w h m l
    by simp
qed

section \<open>Properties of the validation after the loop\<close>



lemma validate_from_length:
  assumes "validate_from i images = Inr ts"
  shows "length ts = length images"
  using assms
  by (induction images arbitrary: i ts) (auto split: if_splits option.splits sum.splits)


















text \<open>
  The comparison of the number of images with \<open>segmentsX * segmentsY\<close> is itself
  followed by a warning only. No loop produces such a list (\<open>capture_loop_count\<close>);
  handed one from outside, the validation lets it pass.
\<close>

lemma count_check_only_warns:
  "validate_images
     [\<lparr>dataUrl = ''data:image/png;base64,AA'', seg_x = JNum 0, seg_y = JNum 0,
       seg_width = JNum 1000, seg_height = JNum 800\<rparr>] (Finite 2) (Finite 1)
   = (Inr [\<lparr>tile_dataUrl = ''data:image/png;base64,AA'', tile_x = 0, tile_y = 0,
             tile_width = 1000, tile_height = 800\<rparr>],
      [Warn (SegmentCountMismatch (Finite 2) 1)])"
  by (simp add: validate_images_def valid_data_def)

end
